theory Spec2Isabelle
  imports Main
begin

section \<open>Python values, errors and call conventions\<close>

text \<open>
  The values that travel through \<^verbatim>\<open>client.py\<close>: JSON-like data (\<^verbatim>\<open>None\<close>, booleans,
  unbounded integers, strings, lists, dictionaries with string keys in insertion order) and
  iterator objects (the id generators), which are references into a store of iterators.
  Floating point numbers are left out.
\<close>

datatype pyval =
    VNone
  | VBool bool
  | VInt int
  | VStr string
  | VList "pyval list"
  | VDict "(string \<times> pyval) list"
  | VIter nat

text \<open>The keyword arguments of a call, \<^verbatim>\<open>**kw\<close>, in the order they were written.\<close>

type_synonym kwargs = "(string \<times> pyval) list"

text \<open>
  Exceptions are values. \<open>TypeError\<close> is what Python raises when a call cannot be bound to a
  signature or a value cannot be serialised; \<open>ArgumentError\<close>, \<open>ParseError\<close> and
  \<open>ValidationError\<close> are the errors of the message builder and the parser;
  \<open>TransportError\<close> and \<open>OtherError\<close> stand for whatever a concrete transport or an
  overridden hook raises.
\<close>

datatype error =
    TypeError
  | ArgumentError
  | ParseError
  | ValidationError string
  | StopIteration
  | TransportError string
  | OtherError string

definition kw_has :: "kwargs \<Rightarrow> string \<Rightarrow> bool" where
  "kw_has kw name = (name \<in> set (map fst kw))"

text \<open>
  A parameter with a default under \<^verbatim>\<open>@apply_self\<close>: the value the caller supplied if the
  keyword is present, and the attribute of \<^verbatim>\<open>self\<close> with the same name otherwise.
\<close>

definition kw_default :: "kwargs \<Rightarrow> string \<Rightarrow> pyval \<Rightarrow> pyval" where
  "kw_default kw name attr = (case map_of kw name of Some v \<Rightarrow> v | None \<Rightarrow> attr)"

text \<open>What is left for \<^verbatim>\<open>**kwargs\<close> once the named parameters have taken their keywords.\<close>

definition kw_rest :: "string list \<Rightarrow> kwargs \<Rightarrow> kwargs" where
  "kw_rest names kw = filter (\<lambda>p. fst p \<notin> set names) kw"

section \<open>JSON text\<close>

text \<open>
  \<^verbatim>\<open>json.dumps\<close> with its defaults: the separators \<^verbatim>\<open>", "\<close> and \<^verbatim>\<open>": "\<close>, every
  character outside the printable ASCII range escaped, the keys of a dictionary in insertion
  order. A value that is not JSON (here: an iterator) raises \<^verbatim>\<open>TypeError\<close>. A character is
  a code point below 256.
\<close>

definition hex_digit :: "nat \<Rightarrow> char" where
  "hex_digit n = (if n < 10 then char_of (48 + n) else char_of (87 + n))"

fun nat_digits :: "nat \<Rightarrow> string" where
  "nat_digits n = (if n < 10 then [char_of (48 + n)] else nat_digits (n div 10) @ [char_of (48 + n mod 10)])"

declare nat_digits.simps [simp del]

definition int_digits :: "int \<Rightarrow> string" where
  "int_digits i = (if i < 0 then CHR ''-'' # nat_digits (nat (- i)) else nat_digits (nat i))"

definition escape_char :: "char \<Rightarrow> string" where
  "escape_char c =
     (if c = CHR 0x22 then [CHR 0x5C, CHR 0x22]
      else if c = CHR 0x5C then [CHR 0x5C, CHR 0x5C]
      else if c = CHR 0x0A then [CHR 0x5C, CHR ''n'']
      else if c = CHR 0x0D then [CHR 0x5C, CHR ''r'']
      else if c = CHR 0x09 then [CHR 0x5C, CHR ''t'']
      else if c = CHR 0x08 then [CHR 0x5C, CHR ''b'']
      else if c = CHR 0x0C then [CHR 0x5C, CHR ''f'']
      else if of_char c < (32::nat) \<or> (126::nat) < of_char c
        then [CHR 0x5C, CHR ''u'', CHR ''0'', CHR ''0'',
              hex_digit (of_char c div 16), hex_digit (of_char c mod 16)]
      else [c])"

definition quote :: "string \<Rightarrow> string" where
  "quote s = CHR 0x22 # concat (map escape_char s) @ [CHR 0x22]"

fun join :: "string \<Rightarrow> string list \<Rightarrow> string" where
  "join sep [] = []"
| "join sep [x] = x"
| "join sep (x # y # ys) = x @ sep @ join sep (y # ys)"

fun collect :: "(error + 'a) list \<Rightarrow> error + 'a list" where
  "collect [] = Inr []"
| "collect (Inl e # xs) = Inl e"
| "collect (Inr x # xs) = (case collect xs of Inl e \<Rightarrow> Inl e | Inr ys \<Rightarrow> Inr (x # ys))"

fun py_dumps :: "pyval \<Rightarrow> error + string" where
  "py_dumps VNone = Inr ''null''"
| "py_dumps (VBool b) = Inr (if b then ''true'' else ''false'')"
| "py_dumps (VInt i) = Inr (int_digits i)"
| "py_dumps (VStr s) = Inr (quote s)"
| "py_dumps (VList xs) =
     (case collect (map py_dumps xs) of
        Inl e \<Rightarrow> Inl e
      | Inr ts \<Rightarrow> Inr (''['' @ join '', '' ts @ '']''))"
| "py_dumps (VDict kvs) =
     (case collect (map (\<lambda>(k, v). case py_dumps v of Inl e \<Rightarrow> Inl e | Inr t \<Rightarrow> Inr (quote k @ '': '' @ t)) kvs) of
        Inl e \<Rightarrow> Inl e
      | Inr ts \<Rightarrow> Inr (''{'' @ join '', '' ts @ ''}''))"
| "py_dumps (VIter n) = Inl TypeError"

text \<open>
  \<^verbatim>\<open>json.loads\<close>: the scanner of the standard decoder, for documents without fractions,
  exponents, the constants \<^verbatim>\<open>NaN\<close> and \<^verbatim>\<open>Infinity\<close>, and code points from 256 up (where
  it answers \<open>None\<close>, as it does on text that is not JSON). The fuel bounds the nesting and
  the number of elements; the length of the text is enough.
\<close>

definition is_ws :: "char \<Rightarrow> bool" where
  "is_ws c = (c = CHR 0x20 \<or> c = CHR 0x09 \<or> c = CHR 0x0A \<or> c = CHR 0x0D)"

definition skip_ws :: "string \<Rightarrow> string" where
  "skip_ws s = dropWhile is_ws s"

fun strip_prefix :: "string \<Rightarrow> string \<Rightarrow> string option" where
  "strip_prefix [] s = Some s"
| "strip_prefix (p # ps) [] = None"
| "strip_prefix (p # ps) (c # cs) = (if p = c then strip_prefix ps cs else None)"

definition is_digit :: "char \<Rightarrow> bool" where
  "is_digit c = ((48::nat) \<le> of_char c \<and> of_char c \<le> (57::nat))"

definition hex_val :: "char \<Rightarrow> nat option" where
  "hex_val c =
     (let n = (of_char c :: nat)
      in if 48 \<le> n \<and> n \<le> 57 then Some (n - 48)
         else if 97 \<le> n \<and> n \<le> 102 then Some (n - 87)
         else if 65 \<le> n \<and> n \<le> 70 then Some (n - 55)
         else None)"

definition hex4 :: "char \<Rightarrow> char \<Rightarrow> char \<Rightarrow> char \<Rightarrow> nat option" where
  "hex4 a b c d =
     (case (hex_val a, hex_val b, hex_val c, hex_val d) of
        (Some x, Some y, Some z, Some u) \<Rightarrow> Some (((x * 16 + y) * 16 + z) * 16 + u)
      | _ \<Rightarrow> None)"

definition unescape :: "char \<Rightarrow> char option" where
  "unescape e =
     (if e = CHR 0x22 \<or> e = CHR 0x5C \<or> e = CHR ''/'' then Some e
      else if e = CHR ''b'' then Some (CHR 0x08)
      else if e = CHR ''f'' then Some (CHR 0x0C)
      else if e = CHR ''n'' then Some (CHR 0x0A)
      else if e = CHR ''r'' then Some (CHR 0x0D)
      else if e = CHR ''t'' then Some (CHR 0x09)
      else None)"

fun scan_string :: "string \<Rightarrow> string \<Rightarrow> (string \<times> string) option" where
  "scan_string acc [] = None"
| "scan_string acc (c # cs) =
     (if c = CHR 0x22 then Some (rev acc, cs)
      else if c = CHR 0x5C then
        (case cs of
           [] \<Rightarrow> None
         | e # es \<Rightarrow>
             if e = CHR ''u'' then
               (case es of
                  h1 # h2 # h3 # h4 # r \<Rightarrow>
                    (case hex4 h1 h2 h3 h4 of
                       None \<Rightarrow> None
                     | Some n \<Rightarrow> if n < 256 then scan_string (char_of n # acc) r else None)
                | _ \<Rightarrow> None)
             else (case unescape e of None \<Rightarrow> None | Some x \<Rightarrow> scan_string (x # acc) es))
      else if of_char c < (32::nat) then None
      else scan_string (c # acc) cs)"

definition digits_val :: "string \<Rightarrow> nat" where
  "digits_val ds = foldl (\<lambda>n c. 10 * n + (of_char c - 48)) 0 ds"

definition scan_number :: "string \<Rightarrow> (pyval \<times> string) option" where
  "scan_number s =
     (let neg = (case s of [] \<Rightarrow> False | c # cs \<Rightarrow> c = CHR ''-'');
          s1 = (if neg then tl s else s);
          ds = takeWhile is_digit s1;
          r = dropWhile is_digit s1
      in if ds = [] then None
         else if 1 < length ds \<and> hd ds = CHR ''0'' then None
         else if r \<noteq> [] \<and> (hd r = CHR ''.'' \<or> hd r = CHR ''e'' \<or> hd r = CHR ''E'') then None
         else Some (VInt (if neg then - int (digits_val ds) else int (digits_val ds)), r))"

fun dict_set :: "(string \<times> pyval) list \<Rightarrow> string \<Rightarrow> pyval \<Rightarrow> (string \<times> pyval) list" where
  "dict_set [] k v = [(k, v)]"
| "dict_set ((k', v') # kvs) k v = (if k' = k then (k, v) # kvs else (k', v') # dict_set kvs k v)"

fun jvalue :: "nat \<Rightarrow> string \<Rightarrow> (pyval \<times> string) option"
  and jitems :: "nat \<Rightarrow> pyval list \<Rightarrow> string \<Rightarrow> (pyval \<times> string) option"
  and jpairs :: "nat \<Rightarrow> (string \<times> pyval) list \<Rightarrow> string \<Rightarrow> (pyval \<times> string) option" where
  "jvalue 0 s = None"
| "jvalue (Suc n) s =
     (case s of
        [] \<Rightarrow> None
      | c # cs \<Rightarrow>
          if c = CHR 0x22 then
            (case scan_string [] cs of None \<Rightarrow> None | Some (x, r) \<Rightarrow> Some (VStr x, r))
          else if c = CHR ''['' then
            (case skip_ws cs of
               [] \<Rightarrow> None
             | d # ds \<Rightarrow> if d = CHR '']'' then Some (VList [], ds) else jitems n [] (d # ds))
          else if c = CHR ''{'' then
            (case skip_ws cs of
               [] \<Rightarrow> None
             | d # ds \<Rightarrow> if d = CHR ''}'' then Some (VDict [], ds) else jpairs n [] (d # ds))
          else
            (case strip_prefix ''null'' s of
               Some r \<Rightarrow> Some (VNone, r)
             | None \<Rightarrow>
                 (case strip_prefix ''true'' s of
                    Some r \<Rightarrow> Some (VBool True, r)
                  | None \<Rightarrow>
                      (case strip_prefix ''false'' s of
                         Some r \<Rightarrow> Some (VBool False, r)
                       | None \<Rightarrow> scan_number s))))"
| "jitems 0 acc s = None"
| "jitems (Suc n) acc s =
     (case jvalue n s of
        None \<Rightarrow> None
      | Some (v, r) \<Rightarrow>
          (case skip_ws r of
             [] \<Rightarrow> None
           | c # cs \<Rightarrow>
               if c = CHR '','' then jitems n (acc @ [v]) (skip_ws cs)
               else if c = CHR '']'' then Some (VList (acc @ [v]), cs)
               else None))"
| "jpairs 0 acc s = None"
| "jpairs (Suc n) acc s =
     (case s of
        [] \<Rightarrow> None
      | c # cs \<Rightarrow>
          if c \<noteq> CHR 0x22 then None
          else
            (case scan_string [] cs of
               None \<Rightarrow> None
             | Some (k, r) \<Rightarrow>
                 (case skip_ws r of
                    [] \<Rightarrow> None
                  | c2 # r2 \<Rightarrow>
                      if c2 \<noteq> CHR '':'' then None
                      else
                        (case jvalue n (skip_ws r2) of
                           None \<Rightarrow> None
                         | Some (v, r3) \<Rightarrow>
                             (case skip_ws r3 of
                                [] \<Rightarrow> None
                              | c3 # r4 \<Rightarrow>
                                  if c3 = CHR '','' then jpairs n (dict_set acc k v) (skip_ws r4)
                                  else if c3 = CHR ''}'' then Some (VDict (dict_set acc k v), r4)
                                  else None)))))"

definition py_loads :: "string \<Rightarrow> pyval option" where
  "py_loads s =
     (case jvalue (Suc (length s)) (skip_ws s) of
        None \<Rightarrow> None
      | Some (v, r) \<Rightarrow> if skip_ws r = [] then Some v else None)"

section \<open>Responses, iterators and the world a call runs in\<close>

text \<open>
  \<^verbatim>\<open>Response\<close>: the raw text, the transport's opaque handle and the decoded payload, unset
  until the parse step writes it.
\<close>

record 'r response =
  r_text :: string
  r_raw :: 'r
  r_data :: "pyval option"

text \<open>
  An iterator object: the sequence it yields (\<open>None\<close> where it is exhausted) and how many
  values have been drawn. \<^verbatim>\<open>next\<close> is the only operation that changes it.
\<close>

record idgen =
  gen_seq :: "nat \<Rightarrow> pyval option"
  gen_pos :: nat

record gens =
  iters :: "idgen list"
  default_count :: nat

text \<open>
  What a call can observe or change: the state behind the transport (server, connection),
  the Response objects created so far (a reference is an index), the iterators, the number
  of log handlers installed and the trace of the calls that leave \<^verbatim>\<open>client.py\<close>.
\<close>

datatype event =
    LogRequest string pyval
  | SendMessage string kwargs
  | LogResponse string pyval
  | ValidateResponse nat
  | Parse string pyval
  | SetData nat pyval

record ('t, 'r) world =
  transport :: 't
  objs :: "'r response list"
  generators :: gens
  handlers :: nat
  trace :: "event list"

text \<open>
  The names \<^verbatim>\<open>client.py\<close> imports: \<^verbatim>\<open>json.dumps\<close>, \<^verbatim>\<open>parse\<close>, \<^verbatim>\<open>Notification\<close> and
  \<^verbatim>\<open>Request\<close>. A \<^verbatim>\<open>Request\<close> may draw an id, so it runs on the iterators.
\<close>

record env =
  dumps :: "pyval \<Rightarrow> error + string"
  parse :: "string \<Rightarrow> pyval \<Rightarrow> error + pyval"
  Notification :: "string \<Rightarrow> pyval list \<Rightarrow> kwargs \<Rightarrow> error + pyval"
  Request :: "string \<Rightarrow> pyval \<Rightarrow> pyval list \<Rightarrow> kwargs \<Rightarrow> gens \<Rightarrow> (error + pyval) \<times> gens"

section \<open>The client\<close>

text \<open>
  A client object: the three attributes \<^verbatim>\<open>__init__\<close> sets, and the two methods a concrete
  transport supplies, the abstract \<^verbatim>\<open>send_message\<close> and the overridable
  \<^verbatim>\<open>validate_response\<close> (which returns nothing, or raises).
\<close>

record ('t, 'r) client =
  trim_log_values :: pyval
  validate_against_schema :: pyval
  id_generator :: pyval
  send_message :: "string \<Rightarrow> kwargs \<Rightarrow> 't \<Rightarrow> (error + 'r response) \<times> 't"
  validate_response :: "'r response \<Rightarrow> 't \<Rightarrow> error option \<times> 't"

definition basic_logging :: "('t, 'r) world \<Rightarrow> ('t, 'r) world" where
  "basic_logging w = w\<lparr>handlers := handlers w + 2\<rparr>"

text \<open>
  \<^verbatim>\<open>__init__\<close>, with the parameters as \<^verbatim>\<open>@apply_config\<close> has resolved them; the two
  transport methods come from the subclass.
\<close>

definition init ::
  "(string \<Rightarrow> kwargs \<Rightarrow> 't \<Rightarrow> (error + 'r response) \<times> 't) \<Rightarrow>
   ('r response \<Rightarrow> 't \<Rightarrow> error option \<times> 't) \<Rightarrow>
   pyval \<Rightarrow> pyval \<Rightarrow> pyval \<Rightarrow> bool \<Rightarrow> ('t, 'r) world \<Rightarrow> ('t, 'r) client \<times> ('t, 'r) world" where
  "init sm vr trim validate idg basic w =
     (\<lparr>trim_log_values = trim, validate_against_schema = validate, id_generator = idg,
        send_message = sm, validate_response = vr\<rparr>,
      if basic then basic_logging w else w)"

text \<open>The default \<^verbatim>\<open>validate_response\<close>: \<^verbatim>\<open>pass\<close>.\<close>

definition validate_response_default :: "'r response \<Rightarrow> 't \<Rightarrow> error option \<times> 't" where
  "validate_response_default r t = (None, t)"

definition log_request :: "string \<Rightarrow> pyval \<Rightarrow> ('t, 'r) world \<Rightarrow> ('t, 'r) world" where
  "log_request request trim w = w\<lparr>trace := trace w @ [LogRequest request trim]\<rparr>"

definition log_response :: "nat \<Rightarrow> pyval \<Rightarrow> ('t, 'r) world \<Rightarrow> ('t, 'r) world" where
  "log_response ref trim w = w\<lparr>trace := trace w @ [LogResponse (r_text (objs w ! ref)) trim]\<rparr>"

text \<open>
  The call \<^verbatim>\<open>self.send_message(request_text, **kwargs)\<close>: the transport runs on its own
  state; the Response it returns is a new object.
\<close>

definition call_send_message ::
  "('t, 'r) client \<Rightarrow> string \<Rightarrow> kwargs \<Rightarrow> ('t, 'r) world \<Rightarrow> (error + nat) \<times> ('t, 'r) world" where
  "call_send_message c request_text kwargs w =
     (let w1 = w\<lparr>trace := trace w @ [SendMessage request_text kwargs]\<rparr>
      in case send_message c request_text kwargs (transport w1) of
           (Inl e, t) \<Rightarrow> (Inl e, w1\<lparr>transport := t\<rparr>)
         | (Inr r, t) \<Rightarrow> (Inr (length (objs w1)), w1\<lparr>transport := t, objs := objs w1 @ [r]\<rparr>))"

definition call_validate_response ::
  "('t, 'r) client \<Rightarrow> nat \<Rightarrow> ('t, 'r) world \<Rightarrow> error option \<times> ('t, 'r) world" where
  "call_validate_response c ref w =
     (let w1 = w\<lparr>trace := trace w @ [ValidateResponse ref]\<rparr>
      in case validate_response c (objs w1 ! ref) (transport w1) of
           (r, t) \<Rightarrow> (r, w1\<lparr>transport := t\<rparr>))"

definition call_parse ::
  "env \<Rightarrow> string \<Rightarrow> pyval \<Rightarrow> ('t, 'r) world \<Rightarrow> (error + pyval) \<times> ('t, 'r) world" where
  "call_parse E txt validate w = (parse E txt validate, w\<lparr>trace := trace w @ [Parse txt validate]\<rparr>)"

text \<open>The assignment \<^verbatim>\<open>response.data = ...\<close>.\<close>

definition set_data :: "nat \<Rightarrow> pyval \<Rightarrow> ('t, 'r) world \<Rightarrow> ('t, 'r) world" where
  "set_data ref d w =
     w\<lparr>objs := (objs w)[ref := (objs w ! ref)\<lparr>r_data := Some d\<rparr>],
       trace := trace w @ [SetData ref d]\<rparr>"

text \<open>\<^verbatim>\<open>request if isinstance(request, str) else json.dumps(request)\<close>\<close>

definition request_text_of :: "env \<Rightarrow> pyval \<Rightarrow> error + string" where
  "request_text_of E request = (case request of VStr s \<Rightarrow> Inr s | _ \<Rightarrow> dumps E request)"

text \<open>
  \<^verbatim>\<open>Client.send(request, **kw)\<close>. Binding first: a keyword \<^verbatim>\<open>self\<close> or \<^verbatim>\<open>request\<close>
  clashes with the positional parameters; \<^verbatim>\<open>trim_log_values\<close> and
  \<^verbatim>\<open>validate_against_schema\<close> are parameters of \<^verbatim>\<open>send\<close>, defaulted from \<^verbatim>\<open>self\<close>;
  the other keywords are \<^verbatim>\<open>**kwargs\<close>. (The two flags are taken by keyword, as
  \<^verbatim>\<open>notify\<close> and \<^verbatim>\<open>request\<close> pass them.) Then the body, statement by statement; the two
  log calls go to the external \<^verbatim>\<open>log_\<close> and leave an event.
\<close>

definition send ::
  "env \<Rightarrow> ('t, 'r) client \<Rightarrow> pyval \<Rightarrow> kwargs \<Rightarrow> ('t, 'r) world \<Rightarrow> (error + nat) \<times> ('t, 'r) world" where
  "send E c request kw w =
     (if kw_has kw ''self'' \<or> kw_has kw ''request'' then (Inl TypeError, w)
      else
        let trim = kw_default kw ''trim_log_values'' (trim_log_values c);
            validate = kw_default kw ''validate_against_schema'' (validate_against_schema c);
            kwargs = kw_rest [''trim_log_values'', ''validate_against_schema''] kw
        in case request_text_of E request of
             Inl e \<Rightarrow> (Inl e, w)
           | Inr request_text \<Rightarrow>
               (case call_send_message c request_text kwargs (log_request request_text trim w) of
                  (Inl e, w2) \<Rightarrow> (Inl e, w2)
                | (Inr ref, w2) \<Rightarrow>
                    (case call_validate_response c ref (log_response ref trim w2) of
                       (Some e, w4) \<Rightarrow> (Inl e, w4)
                     | (None, w4) \<Rightarrow>
                         (case call_parse E (r_text (objs w4 ! ref)) validate w4 of
                            (Inl e, w5) \<Rightarrow> (Inl e, w5)
                          | (Inr d, w5) \<Rightarrow> (Inr ref, set_data ref d w5)))))"

text \<open>
  \<^verbatim>\<open>Client.notify(method_name, *args, **kw)\<close>. The keywords \<^verbatim>\<open>trim_log_values\<close> and
  \<^verbatim>\<open>validate_against_schema\<close> are parameters of \<^verbatim>\<open>notify\<close>, defaulted from \<^verbatim>\<open>self\<close>;
  every other keyword goes to \<^verbatim>\<open>Notification\<close>. \<^verbatim>\<open>send\<close> is called with the two named
  keywords and nothing else.
\<close>

definition notify ::
  "env \<Rightarrow> ('t, 'r) client \<Rightarrow> string \<Rightarrow> pyval list \<Rightarrow> kwargs \<Rightarrow> ('t, 'r) world \<Rightarrow>
   (error + nat) \<times> ('t, 'r) world" where
  "notify E c method_name args kw w =
     (if kw_has kw ''self'' \<or> kw_has kw ''method_name'' then (Inl TypeError, w)
      else
        let trim = kw_default kw ''trim_log_values'' (trim_log_values c);
            validate = kw_default kw ''validate_against_schema'' (validate_against_schema c);
            kwargs = kw_rest [''trim_log_values'', ''validate_against_schema''] kw
        in case Notification E method_name args kwargs of
             Inl e \<Rightarrow> (Inl e, w)
           | Inr n \<Rightarrow>
               send E c n
                 [(''trim_log_values'', trim), (''validate_against_schema'', validate)] w)"

text \<open>
  \<^verbatim>\<open>Client.request(method_name, *args, **kw)\<close>: as \<^verbatim>\<open>notify\<close>, with the third named
  parameter \<^verbatim>\<open>id_generator\<close>, which is handed to \<^verbatim>\<open>Request\<close> by name.
\<close>

definition request ::
  "env \<Rightarrow> ('t, 'r) client \<Rightarrow> string \<Rightarrow> pyval list \<Rightarrow> kwargs \<Rightarrow> ('t, 'r) world \<Rightarrow>
   (error + nat) \<times> ('t, 'r) world" where
  "request E c method_name args kw w =
     (if kw_has kw ''self'' \<or> kw_has kw ''method_name'' then (Inl TypeError, w)
      else
        let trim = kw_default kw ''trim_log_values'' (trim_log_values c);
            validate = kw_default kw ''validate_against_schema'' (validate_against_schema c);
            idg = kw_default kw ''id_generator'' (id_generator c);
            kwargs = kw_rest [''trim_log_values'', ''validate_against_schema'', ''id_generator''] kw
        in case Request E method_name idg args kwargs (generators w) of
             (Inl e, g) \<Rightarrow> (Inl e, w\<lparr>generators := g\<rparr>)
           | (Inr rq, g) \<Rightarrow>
               send E c rq
                 [(''trim_log_values'', trim), (''validate_against_schema'', validate)]
                 (w\<lparr>generators := g\<rparr>))"

text \<open>
  Attribute access. The ordinary lookup finds the attributes \<^verbatim>\<open>__init__\<close> sets, the two
  class constants, the methods of \<^verbatim>\<open>Client\<close> and whatever is defined elsewhere (by
  \<^verbatim>\<open>object\<close> or a subclass: \<open>inherited\<close>). Python calls \<^verbatim>\<open>__getattr__\<close> only when that
  lookup fails; it returns the closure \<^verbatim>\<open>attr_handler\<close>.
\<close>

datatype ('t, 'r) attr =
    Value pyval
  | Member string
  | Handler "pyval list \<Rightarrow> kwargs \<Rightarrow> ('t, 'r) world \<Rightarrow> (error + nat) \<times> ('t, 'r) world"

definition client_methods :: "string list" where
  "client_methods =
     [''__init__'', ''log_request'', ''log_response'', ''basic_logging'', ''send_message'',
      ''validate_response'', ''send'', ''notify'', ''request'', ''__getattr__'']"

definition getattribute ::
  "(string \<Rightarrow> bool) \<Rightarrow> ('t, 'r) client \<Rightarrow> string \<Rightarrow> ('t, 'r) attr option" where
  "getattribute inherited c name =
     (if name = ''trim_log_values'' then Some (Value (trim_log_values c))
      else if name = ''validate_against_schema'' then Some (Value (validate_against_schema c))
      else if name = ''id_generator'' then Some (Value (id_generator c))
      else if name = ''DEFAULT_REQUEST_LOG_FORMAT'' then Some (Value (VStr ''--> %(message)s''))
      else if name = ''DEFAULT_RESPONSE_LOG_FORMAT'' then Some (Value (VStr ''<-- %(message)s''))
      else if name \<in> set client_methods \<or> inherited name then Some (Member name)
      else None)"

definition attr_handler ::
  "env \<Rightarrow> ('t, 'r) client \<Rightarrow> string \<Rightarrow> pyval list \<Rightarrow> kwargs \<Rightarrow> ('t, 'r) world \<Rightarrow>
   (error + nat) \<times> ('t, 'r) world" where
  "attr_handler E c name args kwargs w = request E c name args kwargs w"

definition getattr ::
  "env \<Rightarrow> (string \<Rightarrow> bool) \<Rightarrow> ('t, 'r) client \<Rightarrow> string \<Rightarrow> ('t, 'r) attr" where
  "getattr E inherited c name =
     (case getattribute inherited c name of
        Some a \<Rightarrow> a
      | None \<Rightarrow> Handler (attr_handler E c name))"

section \<open>The message builder, the id generator and the parser\<close>

text \<open>
  Modelled from the spec: the default Identifier Generator of section 4.1 (\<^verbatim>\<open>request.py\<close>
  and the generators are not among the sources). It yields 1, 2, 3, ... and is advanced by
  \<^verbatim>\<open>next\<close> only. \<^verbatim>\<open>next\<close> on a supplied iterator yields its next value, or raises
  \<^verbatim>\<open>StopIteration\<close>; on a value that is no iterator Python raises \<^verbatim>\<open>TypeError\<close>.
\<close>

definition next_id :: "pyval \<Rightarrow> gens \<Rightarrow> (error + pyval) \<times> gens" where
  "next_id idg g =
     (case idg of
        VNone \<Rightarrow>
          (Inr (VInt (int (default_count g) + 1)), g\<lparr>default_count := Suc (default_count g)\<rparr>)
      | VIter n \<Rightarrow>
          if n < length (iters g) then
            (case gen_seq (iters g ! n) (gen_pos (iters g ! n)) of
               None \<Rightarrow> (Inl StopIteration, g)
             | Some v \<Rightarrow>
                 (Inr v, g\<lparr>iters := (iters g)[n := (iters g ! n)\<lparr>gen_pos := Suc (gen_pos (iters g ! n))\<rparr>]\<rparr>))
          else (Inl TypeError, g)
      | _ \<Rightarrow> (Inl TypeError, g))"

text \<open>
  Modelled from the spec: the params rule of section 4.2 (\<^verbatim>\<open>request.py\<close> is not among the
  sources). Positional and keyword arguments together are an \<^verbatim>\<open>ArgumentError\<close>; positional
  arguments give an array, keyword arguments an object, no arguments no \<^verbatim>\<open>params\<close> field.
\<close>

definition params_of :: "pyval list \<Rightarrow> kwargs \<Rightarrow> error + (string \<times> pyval) list" where
  "params_of args kwargs =
     (if args \<noteq> [] \<and> kwargs \<noteq> [] then Inl ArgumentError
      else if args \<noteq> [] then Inr [(''params'', VList args)]
      else if kwargs \<noteq> [] then Inr [(''params'', VDict kwargs)]
      else Inr [])"

text \<open>
  Modelled from the spec: \<^verbatim>\<open>build_notification\<close> of section 4.2, the constructor
  \<^verbatim>\<open>Notification(method, *args, **kwargs)\<close> of the absent \<^verbatim>\<open>request.py\<close>:
  \<^verbatim>\<open>{jsonrpc: "2.0", method, params?}\<close>, never an id.
\<close>

definition Notification_spec :: "string \<Rightarrow> pyval list \<Rightarrow> kwargs \<Rightarrow> error + pyval" where
  "Notification_spec method args kwargs =
     (case params_of args kwargs of
        Inl e \<Rightarrow> Inl e
      | Inr p \<Rightarrow> Inr (VDict ([(''jsonrpc'', VStr ''2.0''), (''method'', VStr method)] @ p)))"

text \<open>
  Modelled from the spec: \<^verbatim>\<open>build_request\<close> of section 4.2, as \<^verbatim>\<open>client.py\<close> calls it,
  \<^verbatim>\<open>Request(method, id_generator=g, *args, **kwargs)\<close>, with no id supplied: the
  Notification fields plus an id drawn from the generator, from the default one when \<^verbatim>\<open>g\<close>
  is \<^verbatim>\<open>None\<close>.
\<close>

definition Request_spec ::
  "string \<Rightarrow> pyval \<Rightarrow> pyval list \<Rightarrow> kwargs \<Rightarrow> gens \<Rightarrow> (error + pyval) \<times> gens" where
  "Request_spec method idg args kwargs g =
     (case params_of args kwargs of
        Inl e \<Rightarrow> (Inl e, g)
      | Inr p \<Rightarrow>
          (case next_id idg g of
             (Inl e, g') \<Rightarrow> (Inl e, g')
           | (Inr i, g') \<Rightarrow>
               (Inr (VDict ([(''jsonrpc'', VStr ''2.0''), (''method'', VStr method)] @ p @ [(''id'', i)])),
                g')))"

text \<open>Python's truth value of a flag.\<close>

fun truthy :: "pyval \<Rightarrow> bool" where
  "truthy VNone = False"
| "truthy (VBool b) = b"
| "truthy (VInt i) = (i \<noteq> 0)"
| "truthy (VStr s) = (s \<noteq> [])"
| "truthy (VList xs) = (xs \<noteq> [])"
| "truthy (VDict kvs) = (kvs \<noteq> [])"
| "truthy (VIter n) = True"

text \<open>
  Modelled from the spec: step 3 of the parser of section 4.4 (\<^verbatim>\<open>parse.py\<close> is not among
  the sources), the structural check of one response object; the error names the field.
\<close>

definition check_response :: "pyval \<Rightarrow> error option" where
  "check_response v =
     (case v of
        VDict kv \<Rightarrow>
          if map_of kv ''jsonrpc'' \<noteq> Some (VStr ''2.0'') then Some (ValidationError ''jsonrpc'')
          else if kw_has kv ''result'' \<and> kw_has kv ''error'' then Some (ValidationError ''error'')
          else if \<not> kw_has kv ''result'' \<and> \<not> kw_has kv ''error'' then Some (ValidationError ''result'')
          else if \<not> kw_has kv ''id'' then Some (ValidationError ''id'')
          else if map_of kv ''id'' = Some VNone \<and> kw_has kv ''result'' then Some (ValidationError ''id'')
          else None
      | _ \<Rightarrow> Some (ValidationError ''jsonrpc''))"

fun first_error :: "error option list \<Rightarrow> error option" where
  "first_error [] = None"
| "first_error (None # xs) = first_error xs"
| "first_error (Some e # xs) = Some e"

text \<open>
  Modelled from the spec: \<^verbatim>\<open>parse(text, validate_against_schema)\<close> of section 4.4, with
  the empty reply of sections 3, 4.5 and 8 (\<^verbatim>\<open>parse.py\<close> is not among the sources). An
  empty text is the acceptable reply to a notification: it is not decoded as JSON, and the
  payload is \<^verbatim>\<open>None\<close>. Any other text is decoded by \<open>loads\<close>, \<^verbatim>\<open>ParseError\<close> if it is not
  JSON; an object is a single response, an array a batch, anything else a \<^verbatim>\<open>ParseError\<close>;
  the structure is checked; the external schema validator \<open>schema\<close> runs if the flag is set;
  the decoded payload is returned.
\<close>

definition parse_with ::
  "(string \<Rightarrow> pyval option) \<Rightarrow> (pyval \<Rightarrow> error option) \<Rightarrow> string \<Rightarrow> pyval \<Rightarrow> error + pyval" where
  "parse_with loads schema txt validate =
     (if txt = [] then Inr VNone
      else
        (case loads txt of
           None \<Rightarrow> Inl ParseError
         | Some v \<Rightarrow>
             (case (case v of
                      VDict kv \<Rightarrow> Inr (check_response v)
                    | VList xs \<Rightarrow> Inr (first_error (map check_response xs))
                    | _ \<Rightarrow> Inl ParseError) of
                Inl e \<Rightarrow> Inl e
              | Inr (Some e) \<Rightarrow> Inl e
              | Inr None \<Rightarrow>
                  (if truthy validate
                   then (case schema v of Some e \<Rightarrow> Inl e | None \<Rightarrow> Inr v)
                   else Inr v))))"

text \<open>The parser with the decoder \<^verbatim>\<open>json.loads\<close>.\<close>

definition parse_spec :: "(pyval \<Rightarrow> error option) \<Rightarrow> string \<Rightarrow> pyval \<Rightarrow> error + pyval" where
  "parse_spec schema txt validate = parse_with py_loads schema txt validate"

text \<open>The imports of \<^verbatim>\<open>client.py\<close>, with a schema validator that accepts every payload.\<close>

definition spec_env :: env where
  "spec_env =
     \<lparr>dumps = py_dumps, parse = parse_spec (\<lambda>v. None),
      Notification = Notification_spec, Request = Request_spec\<rparr>"

section \<open>Example transports and clients\<close>

text \<open>
  Stub transports in the style of the end-to-end examples. The state behind a transport is
  the list of texts it has received; the handle of a Response is the options the transport
  was called with.
\<close>

definition meow_transport ::
  "string \<Rightarrow> kwargs \<Rightarrow> string list \<Rightarrow> (error + kwargs response) \<times> string list" where
  \<open>meow_transport request_text options received =
     (Inr \<lparr>r_text = ''{"jsonrpc": "2.0", "result": "meow", "id": 1}'', r_raw = options,
           r_data = None\<rparr>,
      received @ [request_text])\<close>

definition silent_transport ::
  "string \<Rightarrow> kwargs \<Rightarrow> string list \<Rightarrow> (error + kwargs response) \<times> string list" where
  "silent_transport request_text options received =
     (Inr \<lparr>r_text = [], r_raw = options, r_data = None\<rparr>, received @ [request_text])"

definition garbled_transport ::
  "string \<Rightarrow> kwargs \<Rightarrow> string list \<Rightarrow> (error + kwargs response) \<times> string list" where
  "garbled_transport request_text options received =
     (Inr \<lparr>r_text = ''<html>'', r_raw = options, r_data = None\<rparr>, received @ [request_text])"

definition refusing_transport ::
  "string \<Rightarrow> kwargs \<Rightarrow> string list \<Rightarrow> (error + kwargs response) \<times> string list" where
  "refusing_transport request_text options received =
     (Inl (TransportError ''connection refused''), received)"

text \<open>An overridden \<^verbatim>\<open>validate_response\<close> that rejects an empty reply.\<close>

definition reject_empty :: "kwargs response \<Rightarrow> string list \<Rightarrow> error option \<times> string list" where
  "reject_empty r received =
     (if r_text r = [] then (Some (OtherError ''empty reply''), received) else (None, received))"

text \<open>Two iterators: 100, 101, ... and the single id \<^verbatim>\<open>"a"\<close>.\<close>

definition hundreds :: idgen where
  "hundreds = \<lparr>gen_seq = (\<lambda>n. Some (VInt (100 + int n))), gen_pos = 0\<rparr>"

definition only_a :: idgen where
  "only_a = \<lparr>gen_seq = (\<lambda>n. if n = 0 then Some (VStr ''a'') else None), gen_pos = 0\<rparr>"

definition world0 :: "(string list, kwargs) world" where
  "world0 =
     \<lparr>transport = [], objs = [],
      generators = \<lparr>iters = [hundreds, only_a], default_count = 0\<rparr>,
      handlers = 0, trace = []\<rparr>"

definition meow_client :: "(string list, kwargs) client" where
  "meow_client =
     fst (init meow_transport validate_response_default (VBool False) (VBool True) VNone False world0)"

definition silent_client :: "(string list, kwargs) client" where
  "silent_client =
     fst (init silent_transport validate_response_default (VBool False) (VBool True) VNone False world0)"

definition garbled_client :: "(string list, kwargs) client" where
  "garbled_client =
     fst (init garbled_transport validate_response_default (VBool False) (VBool True) VNone False world0)"

definition refusing_client :: "(string list, kwargs) client" where
  "refusing_client =
     fst (init refusing_transport validate_response_default (VBool False) (VBool True) VNone False world0)"

definition strict_client :: "(string list, kwargs) client" where
  "strict_client =
     fst (init silent_transport reject_empty (VBool False) (VBool True) VNone False world0)"

definition hundreds_client :: "(string list, kwargs) client" where
  "hundreds_client =
     fst (init meow_transport validate_response_default (VBool False) (VBool True) (VIter 0) False world0)"

text \<open>The events a call has added to the trace.\<close>

definition new_events :: "('t, 'r) world \<Rightarrow> ('t, 'r) world \<Rightarrow> event list" where
  "new_events w w' = drop (length (trace w)) (trace w')"

text \<open>The names of the keyword parameters in the \<^verbatim>\<open>params\<close> of a payload.\<close>

definition param_names :: "pyval \<Rightarrow> string list" where
  "param_names payload =
     (case payload of
        VDict kv \<Rightarrow> (case map_of kv ''params'' of Some (VDict ps) \<Rightarrow> map fst ps | _ \<Rightarrow> [])
      | _ \<Rightarrow> [])"

text \<open>The calls of \<^verbatim>\<open>send_message\<close> in a list of events: the text and the options of each.\<close>

fun sent :: "event list \<Rightarrow> (string \<times> kwargs) list" where
  "sent [] = []"
| "sent (SendMessage tx opts # es) = (tx, opts) # sent es"
| "sent (e # es) = sent es"

text \<open>The assignments to a data field in a list of events: the object and the value of each.\<close>

fun writes :: "event list \<Rightarrow> (nat \<times> pyval) list" where
  "writes [] = []"
| "writes (SetData ref d # es) = (ref, d) # writes es"
| "writes (e # es) = writes es"

section \<open>The runs of send\<close>

lemmas send_defs =
  send_def log_request_def call_send_message_def log_response_def
  call_validate_response_def call_parse_def set_data_def Let_def

lemma send_success:
  assumes "\<not> kw_has kw ''self''" and "\<not> kw_has kw ''request''"
    and "request_text_of E req = Inr tx"
    and "send_message c tx (kw_rest [''trim_log_values'', ''validate_against_schema''] kw) (transport w) = (Inr r, t1)"
    and "validate_response c r t1 = (None, t2)"
    and "parse E (r_text r) (kw_default kw ''validate_against_schema'' (validate_against_schema c)) = Inr d"
  shows "send E c req kw w =
           (Inr (length (objs w)),
            w\<lparr>transport := t2,
              objs := objs w @ [r\<lparr>r_data := Some d\<rparr>],
              trace := trace w @
                [LogRequest tx (kw_default kw ''trim_log_values'' (trim_log_values c)),
                 SendMessage tx (kw_rest [''trim_log_values'', ''validate_against_schema''] kw),
                 LogResponse (r_text r) (kw_default kw ''trim_log_values'' (trim_log_values c)),
                 ValidateResponse (length (objs w)),
                 Parse (r_text r) (kw_default kw ''validate_against_schema'' (validate_against_schema c)),
                 SetData (length (objs w)) d]\<rparr>)"
  using assms by (simp add: send_defs)

lemma send_clash:
  assumes "kw_has kw ''self'' \<or> kw_has kw ''request''"
  shows "send E c req kw w = (Inl TypeError, w)"
  using assms by (auto simp add: send_def)

lemma send_dumps_error:
  assumes "\<not> kw_has kw ''self''" and "\<not> kw_has kw ''request''"
    and "request_text_of E req = Inl e"
  shows "send E c req kw w = (Inl e, w)"
  using assms by (simp add: send_defs)

lemma send_transport_error:
  assumes "\<not> kw_has kw ''self''" and "\<not> kw_has kw ''request''"
    and "request_text_of E req = Inr tx"
    and "send_message c tx (kw_rest [''trim_log_values'', ''validate_against_schema''] kw) (transport w) = (Inl e, t1)"
  shows "send E c req kw w =
           (Inl e,
            w\<lparr>transport := t1,
              trace := trace w @
                [LogRequest tx (kw_default kw ''trim_log_values'' (trim_log_values c)),
                 SendMessage tx (kw_rest [''trim_log_values'', ''validate_against_schema''] kw)]\<rparr>)"
  using assms by (simp add: send_defs)

lemma send_validate_error:
  assumes "\<not> kw_has kw ''self''" and "\<not> kw_has kw ''request''"
    and "request_text_of E req = Inr tx"
    and "send_message c tx (kw_rest [''trim_log_values'', ''validate_against_schema''] kw) (transport w) = (Inr r, t1)"
    and "validate_response c r t1 = (Some e, t2)"
  shows "send E c req kw w =
           (Inl e,
            w\<lparr>transport := t2,
              objs := objs w @ [r],
              trace := trace w @
                [LogRequest tx (kw_default kw ''trim_log_values'' (trim_log_values c)),
                 SendMessage tx (kw_rest [''trim_log_values'', ''validate_against_schema''] kw),
                 LogResponse (r_text r) (kw_default kw ''trim_log_values'' (trim_log_values c)),
                 ValidateResponse (length (objs w))]\<rparr>)"
  using assms by (simp add: send_defs)

lemma send_parse_error:
  assumes "\<not> kw_has kw ''self''" and "\<not> kw_has kw ''request''"
    and "request_text_of E req = Inr tx"
    and "send_message c tx (kw_rest [''trim_log_values'', ''validate_against_schema''] kw) (transport w) = (Inr r, t1)"
    and "validate_response c r t1 = (None, t2)"
    and "parse E (r_text r) (kw_default kw ''validate_against_schema'' (validate_against_schema c)) = Inl e"
  shows "send E c req kw w =
           (Inl e,
            w\<lparr>transport := t2,
              objs := objs w @ [r],
              trace := trace w @
                [LogRequest tx (kw_default kw ''trim_log_values'' (trim_log_values c)),
                 SendMessage tx (kw_rest [''trim_log_values'', ''validate_against_schema''] kw),
                 LogResponse (r_text r) (kw_default kw ''trim_log_values'' (trim_log_values c)),
                 ValidateResponse (length (objs w)),
                 Parse (r_text r) (kw_default kw ''validate_against_schema'' (validate_against_schema c))]\<rparr>)"
  using assms by (simp add: send_defs)

text \<open>Every run of \<^verbatim>\<open>send\<close> is one of the six above.\<close>

lemma send_outcome:
  obtains
    (clash) "kw_has kw ''self'' \<or> kw_has kw ''request''"
  | (dumps) e where "\<not> kw_has kw ''self''" "\<not> kw_has kw ''request''" "request_text_of E req = Inl e"
  | (transport) tx e t1 where "\<not> kw_has kw ''self''" "\<not> kw_has kw ''request''"
      "request_text_of E req = Inr tx"
      "send_message c tx (kw_rest [''trim_log_values'', ''validate_against_schema''] kw) (transport w) = (Inl e, t1)"
  | (validate) tx r t1 e t2 where "\<not> kw_has kw ''self''" "\<not> kw_has kw ''request''"
      "request_text_of E req = Inr tx"
      "send_message c tx (kw_rest [''trim_log_values'', ''validate_against_schema''] kw) (transport w) = (Inr r, t1)"
      "validate_response c r t1 = (Some e, t2)"
  | (parse) tx r t1 t2 e where "\<not> kw_has kw ''self''" "\<not> kw_has kw ''request''"
      "request_text_of E req = Inr tx"
      "send_message c tx (kw_rest [''trim_log_values'', ''validate_against_schema''] kw) (transport w) = (Inr r, t1)"
      "validate_response c r t1 = (None, t2)"
      "parse E (r_text r) (kw_default kw ''validate_against_schema'' (validate_against_schema c)) = Inl e"
  | (ok) tx r t1 t2 d where "\<not> kw_has kw ''self''" "\<not> kw_has kw ''request''"
      "request_text_of E req = Inr tx"
      "send_message c tx (kw_rest [''trim_log_values'', ''validate_against_schema''] kw) (transport w) = (Inr r, t1)"
      "validate_response c r t1 = (None, t2)"
      "parse E (r_text r) (kw_default kw ''validate_against_schema'' (validate_against_schema c)) = Inr d"
proof (cases "kw_has kw ''self'' \<or> kw_has kw ''request''")
  case True
  then show ?thesis by (rule clash)
next
  case nc: False
  show ?thesis
  proof (cases "request_text_of E req")
    case (Inl e)
    with nc show ?thesis using dumps by blast
  next
    case tx: (Inr tx)
    obtain res t1 where sm:
      "send_message c tx (kw_rest [''trim_log_values'', ''validate_against_schema''] kw) (transport w) = (res, t1)"
      by (cases "send_message c tx (kw_rest [''trim_log_values'', ''validate_against_schema''] kw) (transport w)")
    show ?thesis
    proof (cases res)
      case (Inl e)
      with nc tx sm show ?thesis using transport by blast
    next
      case (Inr r)
      obtain v t2 where vr: "validate_response c r t1 = (v, t2)"
        by (cases "validate_response c r t1")
      show ?thesis
      proof (cases v)
        case (Some e)
        with nc tx sm Inr vr show ?thesis using validate by blast
      next
        case None
        show ?thesis
        proof (cases "parse E (r_text r) (kw_default kw ''validate_against_schema'' (validate_against_schema c))")
          case (Inl e)
          with nc tx sm Inr vr None show ?thesis using parse by blast
        next
          case (Inr d)
          with nc tx sm \<open>res = Inr r\<close> vr None show ?thesis using ok by blast
        qed
      qed
    qed
  qed
qed

text \<open>What a call adds to the trace, and the runs of the example clients.\<close>

lemma new_events_append [simp]:
  "new_events w (w\<lparr>transport := t, objs := os, trace := trace w @ es\<rparr>) = es"
  "new_events w (w\<lparr>transport := t, trace := trace w @ es\<rparr>) = es"
  "new_events w w = []"
  by (simp_all add: new_events_def)

lemmas example_defs =
  meow_client_def silent_client_def garbled_client_def refusing_client_def strict_client_def
  hundreds_client_def init_def meow_transport_def silent_transport_def garbled_transport_def
  refusing_transport_def reject_empty_def validate_response_default_def
  kw_has_def kw_default_def kw_rest_def request_text_of_def

lemma meow_example:
  \<open>send spec_env meow_client (VDict [(''jsonrpc'', VStr ''2.0''), (''method'', VStr ''ping''), (''id'', VInt 1)])
      [(''timeout'', VInt 5), (''trim_log_values'', VBool True)] world0 =
    (Inr 0,
     world0\<lparr>transport := [''{"jsonrpc": "2.0", "method": "ping", "id": 1}''],
       objs := [\<lparr>r_text = ''{"jsonrpc": "2.0", "result": "meow", "id": 1}'',
                 r_raw = [(''timeout'', VInt 5)],
                 r_data = Some (VDict [(''jsonrpc'', VStr ''2.0''), (''result'', VStr ''meow''), (''id'', VInt 1)])\<rparr>],
       trace :=
         [LogRequest ''{"jsonrpc": "2.0", "method": "ping", "id": 1}'' (VBool True),
          SendMessage ''{"jsonrpc": "2.0", "method": "ping", "id": 1}'' [(''timeout'', VInt 5)],
          LogResponse ''{"jsonrpc": "2.0", "result": "meow", "id": 1}'' (VBool True),
          ValidateResponse 0,
          Parse ''{"jsonrpc": "2.0", "result": "meow", "id": 1}'' (VBool True),
          SetData 0 (VDict [(''jsonrpc'', VStr ''2.0''), (''result'', VStr ''meow''), (''id'', VInt 1)])]\<rparr>)\<close>
proof -
  let ?kw = "[(''timeout'', VInt 5), (''trim_log_values'', VBool True)]"
  let ?req = "VDict [(''jsonrpc'', VStr ''2.0''), (''method'', VStr ''ping''), (''id'', VInt 1)]"
  let ?tx = \<open>''{"jsonrpc": "2.0", "method": "ping", "id": 1}''\<close>
  let ?reply = \<open>''{"jsonrpc": "2.0", "result": "meow", "id": 1}''\<close>
  let ?r = "\<lparr>r_text = ?reply, r_raw = [(''timeout'', VInt 5)], r_data = None\<rparr>"
  let ?d = "VDict [(''jsonrpc'', VStr ''2.0''), (''result'', VStr ''meow''), (''id'', VInt 1)]"
  have h1: "\<not> kw_has ?kw ''self''" and h2: "\<not> kw_has ?kw ''request''"
    by (simp_all add: kw_has_def)
  have d: "dumps spec_env ?req = Inr ?tx"
    unfolding spec_env_def by code_simp
  then have h3: "request_text_of spec_env ?req = Inr ?tx"
    by (simp add: request_text_of_def)
  have h4: "send_message meow_client ?tx (kw_rest [''trim_log_values'', ''validate_against_schema''] ?kw)
      (transport world0) = (Inr ?r, [?tx])"
    by (simp add: meow_client_def init_def meow_transport_def world0_def kw_rest_def)
  have h5: "validate_response meow_client ?r [?tx] = (None, [?tx])"
    by (simp add: meow_client_def init_def validate_response_default_def)
  have p: "parse spec_env ?reply (VBool True) = Inr ?d"
    unfolding spec_env_def by code_simp
  then have h6: "parse spec_env (r_text ?r)
      (kw_default ?kw ''validate_against_schema'' (validate_against_schema meow_client)) = Inr ?d"
    by (simp add: kw_default_def meow_client_def init_def)
  show ?thesis
    using send_success [OF h1 h2 h3 h4 h5 h6]
    by (simp add: world0_def kw_default_def kw_rest_def meow_client_def init_def)
qed

lemma garbled_example:
  "send spec_env garbled_client (VStr ''ping'') [] world0 =
     (Inl ParseError,
      world0\<lparr>transport := [''ping''],
        objs := [\<lparr>r_text = ''<html>'', r_raw = [], r_data = None\<rparr>],
        trace := [LogRequest ''ping'' (VBool False), SendMessage ''ping'' [],
                  LogResponse ''<html>'' (VBool False), ValidateResponse 0,
                  Parse ''<html>'' (VBool True)]\<rparr>)"
proof -
  have h1: "\<not> kw_has [] ''self''" and h2: "\<not> kw_has [] ''request''"
    by (simp_all add: kw_has_def)
  have p: "parse spec_env ''<html>'' (VBool True) = Inl ParseError"
    unfolding spec_env_def by code_simp
  show ?thesis
    using send_parse_error [OF h1 h2,
        where E = spec_env and req = "VStr ''ping''" and tx = "''ping''" and e = ParseError
          and w = world0 and c = garbled_client and ?t1.0 = "[''ping'']" and ?t2.0 = "[''ping'']"
          and r = "\<lparr>r_text = ''<html>'', r_raw = [], r_data = None\<rparr>"] p
    by (simp add: example_defs world0_def)
qed

text \<open>
  What \<^verbatim>\<open>send\<close> hands to the transport, and how it binds the two keywords that
  \<^verbatim>\<open>notify\<close> and \<^verbatim>\<open>request\<close> call it with.
\<close>

lemma send_sends:
  assumes "send E c req kw w = (res, w')"
    and "SendMessage tx opts \<in> set (new_events w w')"
  shows "request_text_of E req = Inr tx \<and>
         opts = kw_rest [''trim_log_values'', ''validate_against_schema''] kw"
proof (cases rule: send_outcome [where kw = kw and E = E and req = req and c = c and w = w])
  case clash
  then show ?thesis
    using assms send_clash [of kw E c req w] by auto
next
  case (dumps e)
  then show ?thesis
    using assms send_dumps_error [of kw E req e c w] by auto
next
  case (transport tx' e t1)
  then show ?thesis
    using assms send_transport_error [of kw E req tx' c w e t1] by auto
next
  case (validate tx' r t1 e t2)
  then show ?thesis
    using assms send_validate_error [of kw E req tx' c w r t1 e t2] by auto
next
  case (parse tx' r t1 t2 e)
  then show ?thesis
    using assms send_parse_error [of kw E req tx' c w r t1 t2 e] by auto
next
  case (ok tx' r t1 t2 d)
  then show ?thesis
    using assms send_success [of kw E req tx' c w r t1 t2 d] by auto
qed

lemma inner_kw [simp]:
  "\<not> kw_has [(''trim_log_values'', a), (''validate_against_schema'', b)] ''self''"
  "\<not> kw_has [(''trim_log_values'', a), (''validate_against_schema'', b)] ''request''"
  "kw_default [(''trim_log_values'', a), (''validate_against_schema'', b)] ''trim_log_values'' x = a"
  "kw_default [(''trim_log_values'', a), (''validate_against_schema'', b)] ''validate_against_schema'' y = b"
  "kw_rest [''trim_log_values'', ''validate_against_schema'']
     [(''trim_log_values'', a), (''validate_against_schema'', b)] = []"
  by (simp_all add: kw_has_def kw_default_def kw_rest_def)

lemma new_events_generators [simp]:
  "new_events (w\<lparr>generators := g\<rparr>) w' = new_events w w'"
  by (simp add: new_events_def)

text \<open>
  Runs of \<^verbatim>\<open>notify\<close> and \<^verbatim>\<open>request\<close> at the example clients, what the two hand to the
  transport, and the names the builder of section 4.2 puts into \<^verbatim>\<open>params\<close>.
\<close>

lemma ping_text:
  \<open>py_dumps (VDict [(''jsonrpc'', VStr ''2.0''), (''method'', VStr ''ping'')]) =
     Inr ''{"jsonrpc": "2.0", "method": "ping"}''\<close>
  by code_simp

lemma notify_example:
  \<open>notify spec_env meow_client ''ping'' [] [(''a'', VInt 2), (''trim_log_values'', VBool True)] world0 =
    (Inr 0,
     world0\<lparr>transport := [''{"jsonrpc": "2.0", "method": "ping", "params": {"a": 2}}''],
       objs := [\<lparr>r_text = ''{"jsonrpc": "2.0", "result": "meow", "id": 1}'',
                 r_raw = [],
                 r_data = Some (VDict [(''jsonrpc'', VStr ''2.0''), (''result'', VStr ''meow''), (''id'', VInt 1)])\<rparr>],
       trace :=
         [LogRequest ''{"jsonrpc": "2.0", "method": "ping", "params": {"a": 2}}'' (VBool True),
          SendMessage ''{"jsonrpc": "2.0", "method": "ping", "params": {"a": 2}}'' [],
          LogResponse ''{"jsonrpc": "2.0", "result": "meow", "id": 1}'' (VBool True),
          ValidateResponse 0,
          Parse ''{"jsonrpc": "2.0", "result": "meow", "id": 1}'' (VBool True),
          SetData 0 (VDict [(''jsonrpc'', VStr ''2.0''), (''result'', VStr ''meow''), (''id'', VInt 1)])]\<rparr>)\<close>
proof -
  let ?kw = "[(''trim_log_values'', VBool True), (''validate_against_schema'', VBool True)]"
  let ?n = "VDict [(''jsonrpc'', VStr ''2.0''), (''method'', VStr ''ping''), (''params'', VDict [(''a'', VInt 2)])]"
  let ?tx = \<open>''{"jsonrpc": "2.0", "method": "ping", "params": {"a": 2}}''\<close>
  let ?reply = \<open>''{"jsonrpc": "2.0", "result": "meow", "id": 1}''\<close>
  let ?r = "\<lparr>r_text = ?reply, r_raw = [], r_data = None\<rparr>"
  let ?d = "VDict [(''jsonrpc'', VStr ''2.0''), (''result'', VStr ''meow''), (''id'', VInt 1)]"
  have n: "notify spec_env meow_client ''ping'' [] [(''a'', VInt 2), (''trim_log_values'', VBool True)] world0 =
      send spec_env meow_client ?n ?kw world0"
    by (simp add: notify_def spec_env_def Notification_spec_def params_of_def kw_has_def
        kw_rest_def kw_default_def meow_client_def init_def)
  have d: "dumps spec_env ?n = Inr ?tx"
    unfolding spec_env_def by code_simp
  then have h3: "request_text_of spec_env ?n = Inr ?tx"
    by (simp add: request_text_of_def)
  have h4: "send_message meow_client ?tx (kw_rest [''trim_log_values'', ''validate_against_schema''] ?kw)
      (transport world0) = (Inr ?r, [?tx])"
    by (simp add: meow_client_def init_def meow_transport_def world0_def)
  have h5: "validate_response meow_client ?r [?tx] = (None, [?tx])"
    by (simp add: meow_client_def init_def validate_response_default_def)
  have p: "parse spec_env ?reply (VBool True) = Inr ?d"
    unfolding spec_env_def by code_simp
  then have h6: "parse spec_env (r_text ?r)
      (kw_default ?kw ''validate_against_schema'' (validate_against_schema meow_client)) = Inr ?d"
    by simp
  show ?thesis
    unfolding n using send_success [OF inner_kw(1) inner_kw(2) h3 h4 h5 h6]
    by (simp add: world0_def)
qed

lemma request_example:
  \<open>request spec_env meow_client ''cat'' [] [(''timeout'', VInt 5), (''id_generator'', VIter 0)] world0 =
    (Inr 0,
     world0\<lparr>generators := \<lparr>iters = [hundreds\<lparr>gen_pos := 1\<rparr>, only_a], default_count = 0\<rparr>,
       transport := [''{"jsonrpc": "2.0", "method": "cat", "params": {"timeout": 5}, "id": 100}''],
       objs := [\<lparr>r_text = ''{"jsonrpc": "2.0", "result": "meow", "id": 1}'',
                 r_raw = [],
                 r_data = Some (VDict [(''jsonrpc'', VStr ''2.0''), (''result'', VStr ''meow''), (''id'', VInt 1)])\<rparr>],
       trace :=
         [LogRequest ''{"jsonrpc": "2.0", "method": "cat", "params": {"timeout": 5}, "id": 100}'' (VBool False),
          SendMessage ''{"jsonrpc": "2.0", "method": "cat", "params": {"timeout": 5}, "id": 100}'' [],
          LogResponse ''{"jsonrpc": "2.0", "result": "meow", "id": 1}'' (VBool False),
          ValidateResponse 0,
          Parse ''{"jsonrpc": "2.0", "result": "meow", "id": 1}'' (VBool True),
          SetData 0 (VDict [(''jsonrpc'', VStr ''2.0''), (''result'', VStr ''meow''), (''id'', VInt 1)])]\<rparr>)\<close>
proof -
  let ?kw = "[(''trim_log_values'', VBool False), (''validate_against_schema'', VBool True)]"
  let ?n = "VDict [(''jsonrpc'', VStr ''2.0''), (''method'', VStr ''cat''),
                   (''params'', VDict [(''timeout'', VInt 5)]), (''id'', VInt 100)]"
  let ?tx = \<open>''{"jsonrpc": "2.0", "method": "cat", "params": {"timeout": 5}, "id": 100}''\<close>
  let ?reply = \<open>''{"jsonrpc": "2.0", "result": "meow", "id": 1}''\<close>
  let ?r = "\<lparr>r_text = ?reply, r_raw = [], r_data = None\<rparr>"
  let ?d = "VDict [(''jsonrpc'', VStr ''2.0''), (''result'', VStr ''meow''), (''id'', VInt 1)]"
  let ?w = "world0\<lparr>generators := \<lparr>iters = [hundreds\<lparr>gen_pos := 1\<rparr>, only_a], default_count = 0\<rparr>\<rparr>"
  have n: "request spec_env meow_client ''cat'' [] [(''timeout'', VInt 5), (''id_generator'', VIter 0)] world0 =
      send spec_env meow_client ?n ?kw ?w"
    by (simp add: request_def spec_env_def Request_spec_def params_of_def next_id_def kw_has_def
        kw_rest_def kw_default_def meow_client_def init_def world0_def hundreds_def)
  have d: "dumps spec_env ?n = Inr ?tx"
    unfolding spec_env_def by code_simp
  then have h3: "request_text_of spec_env ?n = Inr ?tx"
    by (simp add: request_text_of_def)
  have h4: "send_message meow_client ?tx (kw_rest [''trim_log_values'', ''validate_against_schema''] ?kw)
      (transport ?w) = (Inr ?r, [?tx])"
    by (simp add: meow_client_def init_def meow_transport_def world0_def)
  have h5: "validate_response meow_client ?r [?tx] = (None, [?tx])"
    by (simp add: meow_client_def init_def validate_response_default_def)
  have p: "parse spec_env ?reply (VBool True) = Inr ?d"
    unfolding spec_env_def by code_simp
  then have h6: "parse spec_env (r_text ?r)
      (kw_default ?kw ''validate_against_schema'' (validate_against_schema meow_client)) = Inr ?d"
    by simp
  show ?thesis
    unfolding n using send_success [OF inner_kw(1) inner_kw(2) h3 h4 h5 h6]
    by (simp add: world0_def)
qed

lemma notify_send:
  assumes "notify E c m args kw w = (res, w')"
    and "SendMessage tx opts \<in> set (new_events w w')"
  shows "\<exists>p. Notification E m args (kw_rest [''trim_log_values'', ''validate_against_schema''] kw) = Inr p
            \<and> request_text_of E p = Inr tx \<and> opts = []"
proof (cases "kw_has kw ''self'' \<or> kw_has kw ''method_name''")
  case True
  then show ?thesis
    using assms by (auto simp add: notify_def)
next
  case nc: False
  show ?thesis
  proof (cases "Notification E m args (kw_rest [''trim_log_values'', ''validate_against_schema''] kw)")
    case (Inl e)
    then show ?thesis
      using assms nc by (simp add: notify_def Let_def)
  next
    case (Inr p)
    then have "send E c p [(''trim_log_values'', kw_default kw ''trim_log_values'' (trim_log_values c)),
        (''validate_against_schema'', kw_default kw ''validate_against_schema'' (validate_against_schema c))] w
        = (res, w')"
      using assms(1) nc by (simp add: notify_def Let_def)
    from send_sends [OF this assms(2)] Inr show ?thesis by simp
  qed
qed

lemma request_send:
  assumes "request E c m args kw w = (res, w')"
    and "SendMessage tx opts \<in> set (new_events w w')"
  shows "\<exists>p g'. Request E m (kw_default kw ''id_generator'' (id_generator c)) args
               (kw_rest [''trim_log_values'', ''validate_against_schema'', ''id_generator''] kw)
               (generators w) = (Inr p, g')
            \<and> request_text_of E p = Inr tx \<and> opts = []"
proof (cases "kw_has kw ''self'' \<or> kw_has kw ''method_name''")
  case True
  then show ?thesis
    using assms by (auto simp add: request_def)
next
  case nc: False
  obtain b g' where rq: "Request E m (kw_default kw ''id_generator'' (id_generator c)) args
               (kw_rest [''trim_log_values'', ''validate_against_schema'', ''id_generator''] kw)
               (generators w) = (b, g')"
    by (cases "Request E m (kw_default kw ''id_generator'' (id_generator c)) args
               (kw_rest [''trim_log_values'', ''validate_against_schema'', ''id_generator''] kw)
               (generators w)")
  show ?thesis
  proof (cases b)
    case (Inl e)
    then show ?thesis
      using assms nc rq by (auto simp add: request_def Let_def new_events_def)
  next
    case (Inr p)
    then have s: "send E c p [(''trim_log_values'', kw_default kw ''trim_log_values'' (trim_log_values c)),
        (''validate_against_schema'', kw_default kw ''validate_against_schema'' (validate_against_schema c))]
        (w\<lparr>generators := g'\<rparr>) = (res, w')"
      using assms(1) nc rq by (simp add: request_def Let_def)
    have "SendMessage tx opts \<in> set (new_events (w\<lparr>generators := g'\<rparr>) w')"
      using assms(2) by simp
    from send_sends [OF s this] Inr rq show ?thesis by simp
  qed
qed

lemma Notification_spec_names:
  "Notification_spec m args kwargs = Inr n \<Longrightarrow> set (param_names n) \<subseteq> fst ` set kwargs"
  by (auto simp add: Notification_spec_def params_of_def param_names_def split: if_splits)

lemma Request_spec_names:
  "Request_spec m idg args kwargs g = (Inr rq, g') \<Longrightarrow> set (param_names rq) \<subseteq> fst ` set kwargs"
  by (auto simp add: Request_spec_def params_of_def param_names_def
      split: if_splits prod.splits sum.splits)

lemma kw_rest_names:
  "k \<in> set names \<Longrightarrow> k \<notin> fst ` set (kw_rest names kw)"
  by (auto simp add: kw_rest_def)

text \<open>
  The calls of \<^verbatim>\<open>send_message\<close> in a run: a \<^verbatim>\<open>send\<close> whose keywords bind and whose
  request has a text calls the transport exactly once, with that text and the remaining
  keywords, and what the transport raises is what \<^verbatim>\<open>send\<close> raises. With keyword
  arguments and no positional ones, \<^verbatim>\<open>notify\<close> and \<^verbatim>\<open>request\<close> are a \<^verbatim>\<open>send\<close> of the
  payload whose params are those keyword arguments.
\<close>

lemma sent_set: "(tx, opts) \<in> set (sent es) \<longleftrightarrow> SendMessage tx opts \<in> set es"
  by (induction es rule: sent.induct) auto

lemma send_sent:
  assumes "\<not> kw_has kw ''self''" and "\<not> kw_has kw ''request''"
    and "request_text_of E req = Inr tx"
  shows "sent (new_events w (snd (send E c req kw w))) =
           [(tx, kw_rest [''trim_log_values'', ''validate_against_schema''] kw)]"
proof (cases rule: send_outcome [where kw = kw and E = E and req = req and c = c and w = w])
  case clash
  then show ?thesis using assms by simp
next
  case (dumps e)
  then show ?thesis using assms by simp
next
  case (transport tx' e t1)
  then show ?thesis
    using assms send_transport_error [of kw E req tx' c w e t1] by simp
next
  case (validate tx' r t1 e t2)
  then show ?thesis
    using assms send_validate_error [of kw E req tx' c w r t1 e t2] by simp
next
  case (parse tx' r t1 t2 e)
  then show ?thesis
    using assms send_parse_error [of kw E req tx' c w r t1 t2 e] by simp
next
  case (ok tx' r t1 t2 d)
  then show ?thesis
    using assms send_success [of kw E req tx' c w r t1 t2 d] by simp
qed

lemma send_transport_raises:
  assumes "\<not> kw_has kw ''self''" and "\<not> kw_has kw ''request''"
    and "request_text_of E req = Inr tx"
    and "send_message c tx (kw_rest [''trim_log_values'', ''validate_against_schema''] kw) (transport w) = (Inl e, t1)"
  shows "fst (send E c req kw w) = Inl e"
  using send_transport_error [OF assms] by simp

lemma notify_keywords:
  assumes "Notification E = Notification_spec"
    and "\<not> kw_has kw ''self''" and "\<not> kw_has kw ''method_name''"
    and "kw_rest [''trim_log_values'', ''validate_against_schema''] kw \<noteq> []"
  shows "notify E c m [] kw w =
           send E c
             (VDict [(''jsonrpc'', VStr ''2.0''), (''method'', VStr m),
                     (''params'', VDict (kw_rest [''trim_log_values'', ''validate_against_schema''] kw))])
             [(''trim_log_values'', kw_default kw ''trim_log_values'' (trim_log_values c)),
              (''validate_against_schema'',
               kw_default kw ''validate_against_schema'' (validate_against_schema c))] w"
  using assms by (simp add: notify_def Let_def Notification_spec_def params_of_def)

lemma request_keywords:
  assumes "Request E = Request_spec"
    and "\<not> kw_has kw ''self''" and "\<not> kw_has kw ''method_name''"
    and "kw_rest [''trim_log_values'', ''validate_against_schema'', ''id_generator''] kw \<noteq> []"
    and "next_id (kw_default kw ''id_generator'' (id_generator c)) (generators w) = (Inr i, g')"
  shows "request E c m [] kw w =
           send E c
             (VDict [(''jsonrpc'', VStr ''2.0''), (''method'', VStr m),
                     (''params'', VDict (kw_rest [''trim_log_values'', ''validate_against_schema'', ''id_generator''] kw)),
                     (''id'', i)])
             [(''trim_log_values'', kw_default kw ''trim_log_values'' (trim_log_values c)),
              (''validate_against_schema'',
               kw_default kw ''validate_against_schema'' (validate_against_schema c))]
             (w\<lparr>generators := g'\<rparr>)"
  using assms by (simp add: request_def Let_def Request_spec_def params_of_def)

section \<open>The claims\<close>

text \<open>
  C1. For every request (a string, or a value serialised with \<^verbatim>\<open>json.dumps\<close>), every
  keyword list that binds and every transport, a run of \<^verbatim>\<open>send\<close> in which no step raises
  does exactly this, in this order: it normalises the request to text, logs the text, calls
  \<^verbatim>\<open>send_message\<close> with the text and the remaining options, logs the reply, calls
  \<^verbatim>\<open>validate_response\<close>, parses the reply text, writes the decoded payload to the data
  field of the Response and returns that Response.
\<close>

theorem send_steps:
  assumes "\<not> kw_has kw ''self''" and "\<not> kw_has kw ''request''"
    and "trim = kw_default kw ''trim_log_values'' (trim_log_values c)"
    and "validate = kw_default kw ''validate_against_schema'' (validate_against_schema c)"
    and "options = kw_rest [''trim_log_values'', ''validate_against_schema''] kw"
    and "(\<exists>s. req = VStr s \<and> tx = s) \<or> ((\<forall>s. req \<noteq> VStr s) \<and> dumps E req = Inr tx)"
    and "send_message c tx options (transport w) = (Inr r, t1)"
    and "validate_response c r t1 = (None, t2)"
    and "parse E (r_text r) validate = Inr d"
  shows "send E c req kw w =
           (Inr (length (objs w)),
            w\<lparr>transport := t2,
              objs := objs w @ [r\<lparr>r_data := Some d\<rparr>],
              trace := trace w @
                [LogRequest tx trim,
                 SendMessage tx options,
                 LogResponse (r_text r) trim,
                 ValidateResponse (length (objs w)),
                 Parse (r_text r) validate,
                 SetData (length (objs w)) d]\<rparr>)"
proof -
  have "request_text_of E req = Inr tx"
    using assms(6) by (cases req) (auto simp add: request_text_of_def)
  then show ?thesis
    using assms(1-5,7-9) send_success [of kw E req tx c w r t1 t2 d] by simp
qed

text \<open>The theorem at the stub transport that answers \<^verbatim>\<open>meow\<close>.\<close>

theorem send_steps_witness:
  \<open>send spec_env meow_client (VDict [(''jsonrpc'', VStr ''2.0''), (''method'', VStr ''ping''), (''id'', VInt 1)])
      [(''timeout'', VInt 5), (''trim_log_values'', VBool True)] world0 =
    (Inr 0,
     world0\<lparr>transport := [''{"jsonrpc": "2.0", "method": "ping", "id": 1}''],
       objs := [\<lparr>r_text = ''{"jsonrpc": "2.0", "result": "meow", "id": 1}'',
                 r_raw = [(''timeout'', VInt 5)],
                 r_data = Some (VDict [(''jsonrpc'', VStr ''2.0''), (''result'', VStr ''meow''), (''id'', VInt 1)])\<rparr>],
       trace :=
         [LogRequest ''{"jsonrpc": "2.0", "method": "ping", "id": 1}'' (VBool True),
          SendMessage ''{"jsonrpc": "2.0", "method": "ping", "id": 1}'' [(''timeout'', VInt 5)],
          LogResponse ''{"jsonrpc": "2.0", "result": "meow", "id": 1}'' (VBool True),
          ValidateResponse 0,
          Parse ''{"jsonrpc": "2.0", "result": "meow", "id": 1}'' (VBool True),
          SetData 0 (VDict [(''jsonrpc'', VStr ''2.0''), (''result'', VStr ''meow''), (''id'', VInt 1)])]\<rparr>)\<close>
proof -
  let ?kw = "[(''timeout'', VInt 5), (''trim_log_values'', VBool True)]"
  let ?req = "VDict [(''jsonrpc'', VStr ''2.0''), (''method'', VStr ''ping''), (''id'', VInt 1)]"
  let ?tx = \<open>''{"jsonrpc": "2.0", "method": "ping", "id": 1}''\<close>
  let ?reply = \<open>''{"jsonrpc": "2.0", "result": "meow", "id": 1}''\<close>
  let ?r = "\<lparr>r_text = ?reply, r_raw = [(''timeout'', VInt 5)], r_data = None\<rparr>"
  let ?d = "VDict [(''jsonrpc'', VStr ''2.0''), (''result'', VStr ''meow''), (''id'', VInt 1)]"
  have h1: "\<not> kw_has ?kw ''self''" and h2: "\<not> kw_has ?kw ''request''"
    by (simp_all add: kw_has_def)
  have h3: "VBool True = kw_default ?kw ''trim_log_values'' (trim_log_values meow_client)"
    by (simp add: kw_default_def)
  have h4: "VBool True = kw_default ?kw ''validate_against_schema'' (validate_against_schema meow_client)"
    by (simp add: kw_default_def meow_client_def init_def)
  have h5: "[(''timeout'', VInt 5)] = kw_rest [''trim_log_values'', ''validate_against_schema''] ?kw"
    by (simp add: kw_rest_def)
  have d: "dumps spec_env ?req = Inr ?tx"
    unfolding spec_env_def by code_simp
  have h6: "(\<exists>s. ?req = VStr s \<and> ?tx = s) \<or> ((\<forall>s. ?req \<noteq> VStr s) \<and> dumps spec_env ?req = Inr ?tx)"
    using d by simp
  have h7: "send_message meow_client ?tx [(''timeout'', VInt 5)] (transport world0) = (Inr ?r, [?tx])"
    by (simp add: meow_client_def init_def meow_transport_def world0_def)
  have h8: "validate_response meow_client ?r [?tx] = (None, [?tx])"
    by (simp add: meow_client_def init_def validate_response_default_def)
  have h9: "parse spec_env (r_text ?r) (VBool True) = Inr ?d"
    unfolding spec_env_def by code_simp
  show ?thesis
    using send_steps [OF h1 h2 h3 h4 h5 h6 h7 h8 h9] by (simp add: world0_def)
qed

text \<open>
  C5. An exception raised inside \<^verbatim>\<open>send\<close>, by the serialisation of the request, by
  \<^verbatim>\<open>send_message\<close> (a \<^verbatim>\<open>TransportError\<close>, say), by \<^verbatim>\<open>validate_response\<close> or by
  \<^verbatim>\<open>parse\<close>, is the result of the call, unchanged; the call stops at the step that raised
  (no later step runs, \<^verbatim>\<open>send_message\<close> is called once, nothing is retried).
\<close>

theorem send_errors_propagate:
  assumes "\<not> kw_has kw ''self''" and "\<not> kw_has kw ''request''"
    and "trim = kw_default kw ''trim_log_values'' (trim_log_values c)"
    and "validate = kw_default kw ''validate_against_schema'' (validate_against_schema c)"
    and "options = kw_rest [''trim_log_values'', ''validate_against_schema''] kw"
  shows "(request_text_of E req = Inl e \<longrightarrow> send E c req kw w = (Inl e, w))
    \<and> (request_text_of E req = Inr tx \<and> send_message c tx options (transport w) = (Inl e, t1) \<longrightarrow>
         send E c req kw w =
           (Inl e, w\<lparr>transport := t1,
                     trace := trace w @ [LogRequest tx trim, SendMessage tx options]\<rparr>))
    \<and> (request_text_of E req = Inr tx \<and> send_message c tx options (transport w) = (Inr r, t1)
         \<and> validate_response c r t1 = (Some e, t2) \<longrightarrow>
         send E c req kw w =
           (Inl e, w\<lparr>transport := t2, objs := objs w @ [r],
                     trace := trace w @
                       [LogRequest tx trim, SendMessage tx options, LogResponse (r_text r) trim,
                        ValidateResponse (length (objs w))]\<rparr>))
    \<and> (request_text_of E req = Inr tx \<and> send_message c tx options (transport w) = (Inr r, t1)
         \<and> validate_response c r t1 = (None, t2) \<and> parse E (r_text r) validate = Inl e \<longrightarrow>
         send E c req kw w =
           (Inl e, w\<lparr>transport := t2, objs := objs w @ [r],
                     trace := trace w @
                       [LogRequest tx trim, SendMessage tx options, LogResponse (r_text r) trim,
                        ValidateResponse (length (objs w)), Parse (r_text r) validate]\<rparr>))"
proof (intro conjI impI)
  assume "request_text_of E req = Inl e"
  then show "send E c req kw w = (Inl e, w)"
    using assms(1,2) by (rule send_dumps_error [rotated 2])
next
  assume "request_text_of E req = Inr tx \<and> send_message c tx options (transport w) = (Inl e, t1)"
  then show "send E c req kw w =
      (Inl e, w\<lparr>transport := t1, trace := trace w @ [LogRequest tx trim, SendMessage tx options]\<rparr>)"
    using assms send_transport_error [of kw E req tx c w e t1] by simp
next
  assume "request_text_of E req = Inr tx \<and> send_message c tx options (transport w) = (Inr r, t1)
    \<and> validate_response c r t1 = (Some e, t2)"
  then show "send E c req kw w =
      (Inl e, w\<lparr>transport := t2, objs := objs w @ [r],
                trace := trace w @
                  [LogRequest tx trim, SendMessage tx options, LogResponse (r_text r) trim,
                   ValidateResponse (length (objs w))]\<rparr>)"
    using assms send_validate_error [of kw E req tx c w r t1 e t2] by simp
next
  assume "request_text_of E req = Inr tx \<and> send_message c tx options (transport w) = (Inr r, t1)
    \<and> validate_response c r t1 = (None, t2) \<and> parse E (r_text r) validate = Inl e"
  then show "send E c req kw w =
      (Inl e, w\<lparr>transport := t2, objs := objs w @ [r],
                trace := trace w @
                  [LogRequest tx trim, SendMessage tx options, LogResponse (r_text r) trim,
                   ValidateResponse (length (objs w)), Parse (r_text r) validate]\<rparr>)"
    using assms send_parse_error [of kw E req tx c w r t1 t2 e] by simp
qed

text \<open>
  The theorem at four runs: a request that cannot be serialised, a transport that refuses,
  a \<^verbatim>\<open>validate_response\<close> that rejects and a reply that is not JSON.
\<close>

theorem send_errors_propagate_witness:
  "send spec_env meow_client (VList [VIter 0]) [] world0 = (Inl TypeError, world0)
   \<and> send spec_env refusing_client (VStr ''ping'') [] world0 =
       (Inl (TransportError ''connection refused''),
        world0\<lparr>transport := [],
          trace := [LogRequest ''ping'' (VBool False), SendMessage ''ping'' []]\<rparr>)
   \<and> send spec_env strict_client (VStr ''ping'') [] world0 =
       (Inl (OtherError ''empty reply''),
        world0\<lparr>transport := [''ping''],
          objs := [\<lparr>r_text = [], r_raw = [], r_data = None\<rparr>],
          trace := [LogRequest ''ping'' (VBool False), SendMessage ''ping'' [],
                    LogResponse [] (VBool False), ValidateResponse 0]\<rparr>)
   \<and> send spec_env garbled_client (VStr ''ping'') [] world0 =
       (Inl ParseError,
        world0\<lparr>transport := [''ping''],
          objs := [\<lparr>r_text = ''<html>'', r_raw = [], r_data = None\<rparr>],
          trace := [LogRequest ''ping'' (VBool False), SendMessage ''ping'' [],
                    LogResponse ''<html>'' (VBool False), ValidateResponse 0,
                    Parse ''<html>'' (VBool True)]\<rparr>)"
proof -
  have h1: "\<not> kw_has [] ''self''" and h2: "\<not> kw_has [] ''request''"
    by (simp_all add: kw_has_def)
  have d: "request_text_of spec_env (VList [VIter 0]) = Inl TypeError"
    by (simp add: request_text_of_def spec_env_def)
  have p: "parse spec_env ''<html>'' (VBool True) = Inl ParseError"
    unfolding spec_env_def by code_simp
  have a: "send spec_env meow_client (VList [VIter 0]) [] world0 = (Inl TypeError, world0)"
    using send_errors_propagate [OF h1 h2 refl refl refl,
        where E = spec_env and req = "VList [VIter 0]" and e = TypeError and w = world0
          and c = meow_client] d
    by simp
  have b: "send spec_env refusing_client (VStr ''ping'') [] world0 =
       (Inl (TransportError ''connection refused''),
        world0\<lparr>transport := [],
          trace := [LogRequest ''ping'' (VBool False), SendMessage ''ping'' []]\<rparr>)"
    using send_errors_propagate [OF h1 h2 refl refl refl,
        where E = spec_env and req = "VStr ''ping''" and tx = "''ping''"
          and e = "TransportError ''connection refused''" and w = world0
          and c = refusing_client and ?t1.0 = "[]"]
    by (simp add: example_defs world0_def)
  have c: "send spec_env strict_client (VStr ''ping'') [] world0 =
       (Inl (OtherError ''empty reply''),
        world0\<lparr>transport := [''ping''],
          objs := [\<lparr>r_text = [], r_raw = [], r_data = None\<rparr>],
          trace := [LogRequest ''ping'' (VBool False), SendMessage ''ping'' [],
                    LogResponse [] (VBool False), ValidateResponse 0]\<rparr>)"
    using send_errors_propagate [OF h1 h2 refl refl refl,
        where E = spec_env and req = "VStr ''ping''" and tx = "''ping''"
          and e = "OtherError ''empty reply''" and w = world0
          and c = strict_client and ?t1.0 = "[''ping'']" and ?t2.0 = "[''ping'']"
          and r = "\<lparr>r_text = [], r_raw = [], r_data = None\<rparr>"]
    by (simp add: example_defs world0_def)
  have e: "send spec_env garbled_client (VStr ''ping'') [] world0 =
       (Inl ParseError,
        world0\<lparr>transport := [''ping''],
          objs := [\<lparr>r_text = ''<html>'', r_raw = [], r_data = None\<rparr>],
          trace := [LogRequest ''ping'' (VBool False), SendMessage ''ping'' [],
                    LogResponse ''<html>'' (VBool False), ValidateResponse 0,
                    Parse ''<html>'' (VBool True)]\<rparr>)"
    using send_errors_propagate [OF h1 h2 refl refl refl,
        where E = spec_env and req = "VStr ''ping''" and tx = "''ping''"
          and e = ParseError and w = world0
          and c = garbled_client and ?t1.0 = "[''ping'']" and ?t2.0 = "[''ping'']"
          and r = "\<lparr>r_text = ''<html>'', r_raw = [], r_data = None\<rparr>"] p
    by (simp add: example_defs world0_def)
  from a b c e show ?thesis by blast
qed

text \<open>
  C9. The Response a successful \<^verbatim>\<open>send\<close> returns is the object the transport's
  \<^verbatim>\<open>send_message\<close> produced in this call; its text and its handle are as the transport
  left them, only the data field has been written, and no other object has changed.
\<close>

theorem send_returns_transport_object:
  assumes "send E c req kw w = (Inr ref, w')"
    and "options = kw_rest [''trim_log_values'', ''validate_against_schema''] kw"
  shows "\<exists>tx r t1 d.
           request_text_of E req = Inr tx \<and>
           send_message c tx options (transport w) = (Inr r, t1) \<and>
           ref = length (objs w) \<and>
           objs w' = objs w @ [r\<lparr>r_data := Some d\<rparr>] \<and>
           r_text (objs w' ! ref) = r_text r \<and>
           r_raw (objs w' ! ref) = r_raw r \<and>
           r_data (objs w' ! ref) = Some d"
proof (cases rule: send_outcome [where kw = kw and E = E and req = req and c = c and w = w])
  case clash
  then show ?thesis
    using assms(1) send_clash [of kw E c req w] by auto
next
  case (dumps e)
  then show ?thesis
    using assms(1) send_dumps_error [of kw E req e c w] by auto
next
  case (transport tx e t1)
  then show ?thesis
    using assms(1) send_transport_error [of kw E req tx c w e t1] by auto
next
  case (validate tx r t1 e t2)
  then show ?thesis
    using assms(1) send_validate_error [of kw E req tx c w r t1 e t2] by auto
next
  case (parse tx r t1 t2 e)
  then show ?thesis
    using assms(1) send_parse_error [of kw E req tx c w r t1 t2 e] by auto
next
  case (ok tx r t1 t2 d)
  then show ?thesis
    using assms send_success [of kw E req tx c w r t1 t2 d] by auto
qed

text \<open>The theorem at the stub transport whose handle records the options it was given.\<close>

theorem send_returns_transport_object_witness:
  "\<exists>tx r t1 d.
     request_text_of spec_env
       (VDict [(''jsonrpc'', VStr ''2.0''), (''method'', VStr ''ping''), (''id'', VInt 1)]) = Inr tx \<and>
     send_message meow_client tx [(''timeout'', VInt 5)] (transport world0) = (Inr r, t1) \<and>
     (0::nat) = length (objs world0) \<and>
     objs (snd (send spec_env meow_client
             (VDict [(''jsonrpc'', VStr ''2.0''), (''method'', VStr ''ping''), (''id'', VInt 1)])
             [(''timeout'', VInt 5), (''trim_log_values'', VBool True)] world0)) =
       objs world0 @ [r\<lparr>r_data := Some d\<rparr>] \<and>
     r_text (objs (snd (send spec_env meow_client
             (VDict [(''jsonrpc'', VStr ''2.0''), (''method'', VStr ''ping''), (''id'', VInt 1)])
             [(''timeout'', VInt 5), (''trim_log_values'', VBool True)] world0)) ! 0) = r_text r \<and>
     r_raw (objs (snd (send spec_env meow_client
             (VDict [(''jsonrpc'', VStr ''2.0''), (''method'', VStr ''ping''), (''id'', VInt 1)])
             [(''timeout'', VInt 5), (''trim_log_values'', VBool True)] world0)) ! 0) = r_raw r \<and>
     r_data (objs (snd (send spec_env meow_client
             (VDict [(''jsonrpc'', VStr ''2.0''), (''method'', VStr ''ping''), (''id'', VInt 1)])
             [(''timeout'', VInt 5), (''trim_log_values'', VBool True)] world0)) ! 0) = Some d"
proof -
  let ?M = "send spec_env meow_client
                (VDict [(''jsonrpc'', VStr ''2.0''), (''method'', VStr ''ping''), (''id'', VInt 1)])
                [(''timeout'', VInt 5), (''trim_log_values'', VBool True)] world0"
  have m: "?M = (Inr 0, snd ?M)"
    using meow_example by simp
  have o: "kw_rest [''trim_log_values'', ''validate_against_schema'']
             [(''timeout'', VInt 5), (''trim_log_values'', VBool True)] = [(''timeout'', VInt 5)]"
    by (simp add: kw_rest_def)
  show ?thesis
    using send_returns_transport_object [OF m refl] unfolding o by simp
qed

text \<open>
  C2. For every name that the ordinary attribute lookup does not find, the access succeeds
  and gives a callable, and calling it with any positional and keyword arguments, in any
  world, is the call \<^verbatim>\<open>client.request(name, *args, **kwargs)\<close>.
\<close>

theorem getattr_forwards_to_request:
  assumes "getattribute inherited c name = None"
  shows "\<exists>h. getattr E inherited c name = Handler h \<and>
             (\<forall>args kwargs w. h args kwargs w = request E c name args kwargs w)"
proof -
  have "getattr E inherited c name = Handler (attr_handler E c name)"
    using assms by (simp add: getattr_def)
  moreover have "\<forall>args kwargs w. attr_handler E c name args kwargs w = request E c name args kwargs w"
    by (simp add: attr_handler_def)
  ultimately show ?thesis by blast
qed

text \<open>The theorem at \<^verbatim>\<open>client.cube\<close>.\<close>

theorem getattr_forwards_to_request_witness:
  "getattribute (\<lambda>n. False) meow_client ''cube'' = None \<and>
   (\<exists>h. getattr spec_env (\<lambda>n. False) meow_client ''cube'' = Handler h \<and>
        (\<forall>args kwargs w. h args kwargs w = request spec_env meow_client ''cube'' args kwargs w))"
proof -
  have h: "getattribute (\<lambda>n. False) meow_client ''cube'' = None"
    by (simp add: getattribute_def client_methods_def)
  show ?thesis
    using h getattr_forwards_to_request [OF h, of spec_env] by simp
qed

text \<open>
  C7. For every method name and arguments whose keywords bind, \<^verbatim>\<open>notify\<close> builds a
  Notification from the name, the positional arguments and the keywords that are not its own
  parameters; the builder's error is the call's error, and otherwise the call is
  \<^verbatim>\<open>send\<close> on that Notification, with the two flags by name: it returns what \<^verbatim>\<open>send\<close>
  returns.
\<close>

theorem notify_delegates_to_send:
  assumes "\<not> kw_has kw ''self''" and "\<not> kw_has kw ''method_name''"
    and "trim = kw_default kw ''trim_log_values'' (trim_log_values c)"
    and "validate = kw_default kw ''validate_against_schema'' (validate_against_schema c)"
    and "kwargs = kw_rest [''trim_log_values'', ''validate_against_schema''] kw"
  shows "(Notification E method_name args kwargs = Inl e \<longrightarrow>
            notify E c method_name args kw w = (Inl e, w))
       \<and> (Notification E method_name args kwargs = Inr n \<longrightarrow>
            notify E c method_name args kw w =
              send E c n [(''trim_log_values'', trim), (''validate_against_schema'', validate)] w)"
  using assms by (simp add: notify_def Let_def)

text \<open>
  The theorem at a call with positional and keyword arguments together, which the builder
  refuses, and at a call with one keyword argument and one flag.
\<close>

theorem notify_delegates_to_send_witness:
  "notify spec_env meow_client ''ping'' [VInt 1] [(''a'', VInt 2)] world0 = (Inl ArgumentError, world0)
   \<and> notify spec_env meow_client ''ping'' [] [(''a'', VInt 2), (''trim_log_values'', VBool True)] world0 =
       send spec_env meow_client
         (VDict [(''jsonrpc'', VStr ''2.0''), (''method'', VStr ''ping''), (''params'', VDict [(''a'', VInt 2)])])
         [(''trim_log_values'', VBool True), (''validate_against_schema'', VBool True)] world0"
proof -
  have a1: "\<not> kw_has [(''a'', VInt 2)] ''self''" and a2: "\<not> kw_has [(''a'', VInt 2)] ''method_name''"
    by (simp_all add: kw_has_def)
  have b1: "\<not> kw_has [(''a'', VInt 2), (''trim_log_values'', VBool True)] ''self''"
    and b2: "\<not> kw_has [(''a'', VInt 2), (''trim_log_values'', VBool True)] ''method_name''"
    by (simp_all add: kw_has_def)
  have a: "notify spec_env meow_client ''ping'' [VInt 1] [(''a'', VInt 2)] world0 = (Inl ArgumentError, world0)"
    using notify_delegates_to_send [OF a1 a2 refl refl refl,
        where E = spec_env and method_name = "''ping''" and args = "[VInt 1]" and e = ArgumentError
          and c = meow_client and w = world0]
    by (simp add: spec_env_def Notification_spec_def params_of_def kw_rest_def)
  have b: "notify spec_env meow_client ''ping'' [] [(''a'', VInt 2), (''trim_log_values'', VBool True)] world0 =
       send spec_env meow_client
         (VDict [(''jsonrpc'', VStr ''2.0''), (''method'', VStr ''ping''), (''params'', VDict [(''a'', VInt 2)])])
         [(''trim_log_values'', VBool True), (''validate_against_schema'', VBool True)] world0"
    using notify_delegates_to_send [OF b1 b2 refl refl refl,
        where E = spec_env and method_name = "''ping''" and args = "[]"
          and n = "VDict [(''jsonrpc'', VStr ''2.0''), (''method'', VStr ''ping''), (''params'', VDict [(''a'', VInt 2)])]"
          and c = meow_client and w = world0]
    by (simp add: spec_env_def Notification_spec_def params_of_def kw_rest_def kw_default_def
        meow_client_def init_def)
  from a b show ?thesis by blast
qed

text \<open>
  C8. For a client built by \<^verbatim>\<open>__init__\<close>, \<^verbatim>\<open>request\<close> builds a Request with the
  \<^verbatim>\<open>id_generator\<close> keyword of the call when the call has one and with the generator given at
  construction otherwise; the builder's error is the call's error, and otherwise the call is
  \<^verbatim>\<open>send\<close> on that Request, in the world where the generator has been advanced.
\<close>

theorem request_uses_call_or_client_generator:
  assumes "\<not> kw_has kw ''self''" and "\<not> kw_has kw ''method_name''"
    and "c = fst (init sm vr trim0 validate0 idg0 basic w0)"
    and "idg = (case map_of kw ''id_generator'' of Some g \<Rightarrow> g | None \<Rightarrow> idg0)"
    and "trim = kw_default kw ''trim_log_values'' trim0"
    and "validate = kw_default kw ''validate_against_schema'' validate0"
    and "kwargs = kw_rest [''trim_log_values'', ''validate_against_schema'', ''id_generator''] kw"
  shows "(Request E method_name idg args kwargs (generators w) = (Inl e, g') \<longrightarrow>
            request E c method_name args kw w = (Inl e, w\<lparr>generators := g'\<rparr>))
       \<and> (Request E method_name idg args kwargs (generators w) = (Inr rq, g') \<longrightarrow>
            request E c method_name args kw w =
              send E c rq [(''trim_log_values'', trim), (''validate_against_schema'', validate)]
                (w\<lparr>generators := g'\<rparr>))"
  using assms by (simp add: request_def Let_def init_def kw_default_def)

text \<open>
  The theorem at a client constructed with the generator 100, 101, ...: a call that brings
  its own generator gets the id \<^verbatim>\<open>"a"\<close> from it, a call without one gets 100.
\<close>

theorem request_uses_call_or_client_generator_witness:
  "request spec_env hundreds_client ''cat'' [] [(''name'', VStr ''Yoko''), (''id_generator'', VIter 1)] world0 =
     send spec_env hundreds_client
       (VDict [(''jsonrpc'', VStr ''2.0''), (''method'', VStr ''cat''),
               (''params'', VDict [(''name'', VStr ''Yoko'')]), (''id'', VStr ''a'')])
       [(''trim_log_values'', VBool False), (''validate_against_schema'', VBool True)]
       (world0\<lparr>generators := \<lparr>iters = [hundreds, only_a\<lparr>gen_pos := 1\<rparr>], default_count = 0\<rparr>\<rparr>)
   \<and> request spec_env hundreds_client ''cat'' [] [(''name'', VStr ''Yoko'')] world0 =
     send spec_env hundreds_client
       (VDict [(''jsonrpc'', VStr ''2.0''), (''method'', VStr ''cat''),
               (''params'', VDict [(''name'', VStr ''Yoko'')]), (''id'', VInt 100)])
       [(''trim_log_values'', VBool False), (''validate_against_schema'', VBool True)]
       (world0\<lparr>generators := \<lparr>iters = [hundreds\<lparr>gen_pos := 1\<rparr>, only_a], default_count = 0\<rparr>\<rparr>)"
proof -
  let ?kw1 = "[(''name'', VStr ''Yoko''), (''id_generator'', VIter 1)]"
  let ?kw2 = "[(''name'', VStr ''Yoko'')]"
  have a1: "\<not> kw_has ?kw1 ''self''" and a2: "\<not> kw_has ?kw1 ''method_name''"
    and b1: "\<not> kw_has ?kw2 ''self''" and b2: "\<not> kw_has ?kw2 ''method_name''"
    by (simp_all add: kw_has_def)
  have g1: "Request spec_env ''cat'' (VIter 1) [] [(''name'', VStr ''Yoko'')] (generators world0) =
      (Inr (VDict [(''jsonrpc'', VStr ''2.0''), (''method'', VStr ''cat''),
               (''params'', VDict [(''name'', VStr ''Yoko'')]), (''id'', VStr ''a'')]),
       \<lparr>iters = [hundreds, only_a\<lparr>gen_pos := 1\<rparr>], default_count = 0\<rparr>)"
    by (simp add: spec_env_def Request_spec_def params_of_def next_id_def world0_def only_a_def)
  have g2: "Request spec_env ''cat'' (VIter 0) [] [(''name'', VStr ''Yoko'')] (generators world0) =
      (Inr (VDict [(''jsonrpc'', VStr ''2.0''), (''method'', VStr ''cat''),
               (''params'', VDict [(''name'', VStr ''Yoko'')]), (''id'', VInt 100)]),
       \<lparr>iters = [hundreds\<lparr>gen_pos := 1\<rparr>, only_a], default_count = 0\<rparr>)"
    by (simp add: spec_env_def Request_spec_def params_of_def next_id_def world0_def hundreds_def)
  have a: "request spec_env hundreds_client ''cat'' [] ?kw1 world0 =
     send spec_env hundreds_client
       (VDict [(''jsonrpc'', VStr ''2.0''), (''method'', VStr ''cat''),
               (''params'', VDict [(''name'', VStr ''Yoko'')]), (''id'', VStr ''a'')])
       [(''trim_log_values'', VBool False), (''validate_against_schema'', VBool True)]
       (world0\<lparr>generators := \<lparr>iters = [hundreds, only_a\<lparr>gen_pos := 1\<rparr>], default_count = 0\<rparr>\<rparr>)"
    using request_uses_call_or_client_generator [OF a1 a2 hundreds_client_def refl refl refl refl,
        where E = spec_env and method_name = "''cat''" and args = "[]" and w = world0
          and rq = "VDict [(''jsonrpc'', VStr ''2.0''), (''method'', VStr ''cat''),
               (''params'', VDict [(''name'', VStr ''Yoko'')]), (''id'', VStr ''a'')]"
          and g' = "\<lparr>iters = [hundreds, only_a\<lparr>gen_pos := 1\<rparr>], default_count = 0\<rparr>"] g1
    by (simp add: kw_rest_def kw_default_def)
  have b: "request spec_env hundreds_client ''cat'' [] ?kw2 world0 =
     send spec_env hundreds_client
       (VDict [(''jsonrpc'', VStr ''2.0''), (''method'', VStr ''cat''),
               (''params'', VDict [(''name'', VStr ''Yoko'')]), (''id'', VInt 100)])
       [(''trim_log_values'', VBool False), (''validate_against_schema'', VBool True)]
       (world0\<lparr>generators := \<lparr>iters = [hundreds\<lparr>gen_pos := 1\<rparr>, only_a], default_count = 0\<rparr>\<rparr>)"
    using request_uses_call_or_client_generator [OF b1 b2 hundreds_client_def refl refl refl refl,
        where E = spec_env and method_name = "''cat''" and args = "[]" and w = world0
          and rq = "VDict [(''jsonrpc'', VStr ''2.0''), (''method'', VStr ''cat''),
               (''params'', VDict [(''name'', VStr ''Yoko'')]), (''id'', VInt 100)]"
          and g' = "\<lparr>iters = [hundreds\<lparr>gen_pos := 1\<rparr>, only_a], default_count = 0\<rparr>"] g2
    by (simp add: kw_rest_def kw_default_def)
  from a b show ?thesis by blast
qed

text \<open>
  C10. Whatever \<^verbatim>\<open>notify\<close> or \<^verbatim>\<open>request\<close> sends to the transport is the text of a payload,
  built by the message builder of section 4.2, whose \<^verbatim>\<open>params\<close> have no member named
  \<^verbatim>\<open>trim_log_values\<close> or \<^verbatim>\<open>validate_against_schema\<close>, nor, for \<^verbatim>\<open>request\<close>,
  \<^verbatim>\<open>id_generator\<close>: a keyword with one of these names is taken as configuration.
\<close>

theorem config_keywords_never_params:
  assumes "Notification E = Notification_spec" and "Request E = Request_spec"
    and "SendMessage tx opts \<in> set (new_events w w')"
  shows "(notify E c m args kw w = (res, w') \<longrightarrow>
            (\<exists>p. Notification E m args (kw_rest [''trim_log_values'', ''validate_against_schema''] kw) = Inr p
               \<and> request_text_of E p = Inr tx
               \<and> ''trim_log_values'' \<notin> set (param_names p)
               \<and> ''validate_against_schema'' \<notin> set (param_names p)))
       \<and> (request E c m args kw w = (res, w') \<longrightarrow>
            (\<exists>p g'. Request E m (kw_default kw ''id_generator'' (id_generator c)) args
                      (kw_rest [''trim_log_values'', ''validate_against_schema'', ''id_generator''] kw)
                      (generators w) = (Inr p, g')
               \<and> request_text_of E p = Inr tx
               \<and> ''trim_log_values'' \<notin> set (param_names p)
               \<and> ''validate_against_schema'' \<notin> set (param_names p)
               \<and> ''id_generator'' \<notin> set (param_names p)))"
proof (intro conjI impI)
  assume "notify E c m args kw w = (res, w')"
  from notify_send [OF this assms(3)] obtain p where
    p: "Notification E m args (kw_rest [''trim_log_values'', ''validate_against_schema''] kw) = Inr p"
    and t: "request_text_of E p = Inr tx"
    by blast
  from p assms(1) have "set (param_names p) \<subseteq>
      fst ` set (kw_rest [''trim_log_values'', ''validate_against_schema''] kw)"
    using Notification_spec_names by simp
  moreover have "''trim_log_values'' \<notin> fst ` set (kw_rest [''trim_log_values'', ''validate_against_schema''] kw)"
    and "''validate_against_schema'' \<notin> fst ` set (kw_rest [''trim_log_values'', ''validate_against_schema''] kw)"
    by (rule kw_rest_names, simp)+
  ultimately show "\<exists>p. Notification E m args (kw_rest [''trim_log_values'', ''validate_against_schema''] kw) = Inr p
               \<and> request_text_of E p = Inr tx
               \<and> ''trim_log_values'' \<notin> set (param_names p)
               \<and> ''validate_against_schema'' \<notin> set (param_names p)"
    using p t by blast
next
  let ?rest = "kw_rest [''trim_log_values'', ''validate_against_schema'', ''id_generator''] kw"
  assume "request E c m args kw w = (res, w')"
  from request_send [OF this assms(3)] obtain p g' where
    p: "Request E m (kw_default kw ''id_generator'' (id_generator c)) args ?rest (generators w) = (Inr p, g')"
    and t: "request_text_of E p = Inr tx"
    by blast
  from p assms(2) have "set (param_names p) \<subseteq> fst ` set ?rest"
    using Request_spec_names by simp
  moreover have "''trim_log_values'' \<notin> fst ` set ?rest"
    and "''validate_against_schema'' \<notin> fst ` set ?rest"
    and "''id_generator'' \<notin> fst ` set ?rest"
    by (rule kw_rest_names, simp)+
  ultimately show "\<exists>p g'. Request E m (kw_default kw ''id_generator'' (id_generator c)) args ?rest
                      (generators w) = (Inr p, g')
               \<and> request_text_of E p = Inr tx
               \<and> ''trim_log_values'' \<notin> set (param_names p)
               \<and> ''validate_against_schema'' \<notin> set (param_names p)
               \<and> ''id_generator'' \<notin> set (param_names p)"
    using p t by blast
qed

text \<open>
  The theorem at a \<^verbatim>\<open>notify\<close> with the keyword \<^verbatim>\<open>trim_log_values\<close> and a \<^verbatim>\<open>request\<close>
  with the keyword \<^verbatim>\<open>id_generator\<close>.
\<close>

theorem config_keywords_never_params_witness:
  \<open>SendMessage ''{"jsonrpc": "2.0", "method": "ping", "params": {"a": 2}}'' [] \<in>
     set (new_events world0 (snd (notify spec_env meow_client ''ping'' []
            [(''a'', VInt 2), (''trim_log_values'', VBool True)] world0)))
   \<and> (\<exists>p. Notification spec_env ''ping'' []
             (kw_rest [''trim_log_values'', ''validate_against_schema'']
                [(''a'', VInt 2), (''trim_log_values'', VBool True)]) = Inr p
        \<and> request_text_of spec_env p = Inr ''{"jsonrpc": "2.0", "method": "ping", "params": {"a": 2}}''
        \<and> ''trim_log_values'' \<notin> set (param_names p)
        \<and> ''validate_against_schema'' \<notin> set (param_names p))
   \<and> SendMessage ''{"jsonrpc": "2.0", "method": "cat", "params": {"timeout": 5}, "id": 100}'' [] \<in>
     set (new_events world0 (snd (request spec_env meow_client ''cat'' []
            [(''timeout'', VInt 5), (''id_generator'', VIter 0)] world0)))
   \<and> (\<exists>p g'. Request spec_env ''cat''
             (kw_default [(''timeout'', VInt 5), (''id_generator'', VIter 0)] ''id_generator''
                (id_generator meow_client)) []
             (kw_rest [''trim_log_values'', ''validate_against_schema'', ''id_generator'']
                [(''timeout'', VInt 5), (''id_generator'', VIter 0)])
             (generators world0) = (Inr p, g')
        \<and> request_text_of spec_env p =
            Inr ''{"jsonrpc": "2.0", "method": "cat", "params": {"timeout": 5}, "id": 100}''
        \<and> ''trim_log_values'' \<notin> set (param_names p)
        \<and> ''validate_against_schema'' \<notin> set (param_names p)
        \<and> ''id_generator'' \<notin> set (param_names p))\<close>
proof -
  let ?N = "notify spec_env meow_client ''ping'' [] [(''a'', VInt 2), (''trim_log_values'', VBool True)] world0"
  let ?R = "request spec_env meow_client ''cat'' [] [(''timeout'', VInt 5), (''id_generator'', VIter 0)] world0"
  have s1: "Notification spec_env = Notification_spec" and s2: "Request spec_env = Request_spec"
    by (simp_all add: spec_env_def)
  have n: \<open>SendMessage ''{"jsonrpc": "2.0", "method": "ping", "params": {"a": 2}}'' [] \<in>
     set (new_events world0 (snd ?N))\<close>
    unfolding notify_example by (simp add: new_events_def world0_def)
  have r: \<open>SendMessage ''{"jsonrpc": "2.0", "method": "cat", "params": {"timeout": 5}, "id": 100}'' [] \<in>
     set (new_events world0 (snd ?R))\<close>
    unfolding request_example by (simp add: new_events_def world0_def)
  have en: "?N = (fst ?N, snd ?N)" and er: "?R = (fst ?R, snd ?R)"
    by simp_all
  from config_keywords_never_params [OF s1 s2 n, where c = meow_client and res = "fst ?N"
      and m = "''ping''" and args = "[]" and kw = "[(''a'', VInt 2), (''trim_log_values'', VBool True)]"]
    en
  have a: \<open>\<exists>p. Notification spec_env ''ping'' []
             (kw_rest [''trim_log_values'', ''validate_against_schema'']
                [(''a'', VInt 2), (''trim_log_values'', VBool True)]) = Inr p
        \<and> request_text_of spec_env p = Inr ''{"jsonrpc": "2.0", "method": "ping", "params": {"a": 2}}''
        \<and> ''trim_log_values'' \<notin> set (param_names p)
        \<and> ''validate_against_schema'' \<notin> set (param_names p)\<close>
    by blast
  from config_keywords_never_params [OF s1 s2 r, where c = meow_client and res = "fst ?R"
      and m = "''cat''" and args = "[]" and kw = "[(''timeout'', VInt 5), (''id_generator'', VIter 0)]"]
    er
  have b: \<open>\<exists>p g'. Request spec_env ''cat''
             (kw_default [(''timeout'', VInt 5), (''id_generator'', VIter 0)] ''id_generator''
                (id_generator meow_client)) []
             (kw_rest [''trim_log_values'', ''validate_against_schema'', ''id_generator'']
                [(''timeout'', VInt 5), (''id_generator'', VIter 0)])
             (generators world0) = (Inr p, g')
        \<and> request_text_of spec_env p =
            Inr ''{"jsonrpc": "2.0", "method": "cat", "params": {"timeout": 5}, "id": 100}''
        \<and> ''trim_log_values'' \<notin> set (param_names p)
        \<and> ''validate_against_schema'' \<notin> set (param_names p)
        \<and> ''id_generator'' \<notin> set (param_names p)\<close>
    by blast
  from n a r b show ?thesis by blast
qed

text \<open>
  C3. When \<^verbatim>\<open>notify("ping")\<close> is called and the transport's \<^verbatim>\<open>send_message\<close> returns a
  Response with an empty text, which \<^verbatim>\<open>validate_response\<close> accepts, the client sends the
  payload \<^verbatim>\<open>{"jsonrpc": "2.0", "method": "ping"}\<close>, with no id field, and the call succeeds:
  no \<^verbatim>\<open>ParseError\<close> is raised for the empty reply, the Response is returned and its data is
  \<^verbatim>\<open>None\<close>. The empty text is not decoded as JSON: the run is the same for every decoder
  \<open>loads\<close>, also one that rejects every text.
\<close>

theorem notify_ping_empty_reply:
  assumes "dumps E = py_dumps" and "Notification E = Notification_spec"
    and "parse E = parse_with loads schema"
    and \<open>send_message c ''{"jsonrpc": "2.0", "method": "ping"}'' [] (transport w) = (Inr r, t1)\<close>
    and "r_text r = []"
    and "validate_response c r t1 = (None, t2)"
  shows \<open>notify E c ''ping'' [] [] w =
    (Inr (length (objs w)),
     w\<lparr>transport := t2, objs := objs w @ [r\<lparr>r_data := Some VNone\<rparr>],
       trace := trace w @
         [LogRequest ''{"jsonrpc": "2.0", "method": "ping"}'' (trim_log_values c),
          SendMessage ''{"jsonrpc": "2.0", "method": "ping"}'' [],
          LogResponse [] (trim_log_values c),
          ValidateResponse (length (objs w)),
          Parse [] (validate_against_schema c),
          SetData (length (objs w)) VNone]\<rparr>)\<close>
proof -
  let ?kw = "[(''trim_log_values'', trim_log_values c), (''validate_against_schema'', validate_against_schema c)]"
  let ?n = "VDict [(''jsonrpc'', VStr ''2.0''), (''method'', VStr ''ping'')]"
  let ?tx = \<open>''{"jsonrpc": "2.0", "method": "ping"}''\<close>
  have n: "notify E c ''ping'' [] [] w = send E c ?n ?kw w"
    using assms(2)
    by (simp add: notify_def Notification_spec_def params_of_def kw_has_def kw_rest_def kw_default_def)
  have h3: "request_text_of E ?n = Inr ?tx"
    using ping_text assms(1) by (simp add: request_text_of_def)
  have h4: "send_message c ?tx (kw_rest [''trim_log_values'', ''validate_against_schema''] ?kw)
      (transport w) = (Inr r, t1)"
    using assms(4) by simp
  have h6: "parse E (r_text r)
      (kw_default ?kw ''validate_against_schema'' (validate_against_schema c)) = Inr VNone"
    using assms(3,5) by (simp add: parse_with_def)
  show ?thesis
    unfolding n using send_success [OF inner_kw(1) inner_kw(2) h3 h4 assms(6) h6] assms(5)
    by simp
qed

text \<open>
  The theorem at the silent transport, with the decoder \<^verbatim>\<open>json.loads\<close> and with a decoder
  that rejects every text.
\<close>

theorem notify_ping_empty_reply_witness:
  \<open>notify spec_env silent_client ''ping'' [] [] world0 =
     (Inr 0,
      world0\<lparr>transport := [''{"jsonrpc": "2.0", "method": "ping"}''],
        objs := [\<lparr>r_text = [], r_raw = [], r_data = Some VNone\<rparr>],
        trace :=
          [LogRequest ''{"jsonrpc": "2.0", "method": "ping"}'' (VBool False),
           SendMessage ''{"jsonrpc": "2.0", "method": "ping"}'' [],
           LogResponse [] (VBool False),
           ValidateResponse 0,
           Parse [] (VBool True),
           SetData 0 VNone]\<rparr>)
   \<and> fst (notify (spec_env\<lparr>parse := parse_with (\<lambda>s. None) (\<lambda>v. None)\<rparr>) silent_client ''ping'' [] []
          world0) = Inr 0\<close>
proof -
  let ?tx = \<open>''{"jsonrpc": "2.0", "method": "ping"}''\<close>
  let ?r = "\<lparr>r_text = [], r_raw = [], r_data = None\<rparr> :: kwargs response"
  let ?E = "spec_env\<lparr>parse := parse_with (\<lambda>s. None) (\<lambda>v. None)\<rparr>"
  have s1: "dumps spec_env = py_dumps" and s2: "Notification spec_env = Notification_spec"
    and l1: "dumps ?E = py_dumps" and l2: "Notification ?E = Notification_spec"
    by (simp_all add: spec_env_def)
  have s3: "parse spec_env = parse_with py_loads (\<lambda>v. None)"
    by (rule ext, rule ext) (simp add: spec_env_def parse_spec_def)
  have l3: "parse ?E = parse_with (\<lambda>s. None) (\<lambda>v. None)"
    by simp
  have h3: "send_message silent_client ?tx [] (transport world0) = (Inr ?r, [?tx])"
    by (simp add: silent_client_def init_def silent_transport_def world0_def)
  have h4: "r_text ?r = []"
    by simp
  have h5: "validate_response silent_client ?r [?tx] = (None, [?tx])"
    by (simp add: silent_client_def init_def validate_response_default_def)
  have v: "validate_against_schema silent_client = VBool True"
    and t: "trim_log_values silent_client = VBool False"
    by (simp_all add: silent_client_def init_def)
  have a: "notify spec_env silent_client ''ping'' [] [] world0 =
     (Inr 0,
      world0\<lparr>transport := [?tx],
        objs := [\<lparr>r_text = [], r_raw = [], r_data = Some VNone\<rparr>],
        trace :=
          [LogRequest ?tx (VBool False), SendMessage ?tx [], LogResponse [] (VBool False),
           ValidateResponse 0, Parse [] (VBool True), SetData 0 VNone]\<rparr>)"
    using notify_ping_empty_reply [OF s1 s2 s3 h3 h4 h5] by (simp add: v t world0_def)
  have b: "fst (notify ?E silent_client ''ping'' [] [] world0) = Inr 0"
    using notify_ping_empty_reply [OF l1 l2 l3 h3 h4 h5] by (simp add: world0_def)
  from a b show ?thesis by blast
qed

text \<open>
  C4, as stated: the keyword options the caller gives to \<^verbatim>\<open>send\<close>, \<^verbatim>\<open>request\<close> or
  \<^verbatim>\<open>notify\<close> reach \<^verbatim>\<open>send_message\<close> unmodified. It fails for \<^verbatim>\<open>request\<close>: the keyword
  \<^verbatim>\<open>timeout=5\<close> becomes a parameter of the remote procedure, and \<^verbatim>\<open>send_message\<close> is
  called with no options.
\<close>

theorem request_options_become_params:
  \<open>new_events world0
     (snd (request spec_env meow_client ''cat'' [] [(''timeout'', VInt 5), (''id_generator'', VIter 0)] world0)) =
     [LogRequest ''{"jsonrpc": "2.0", "method": "cat", "params": {"timeout": 5}, "id": 100}'' (VBool False),
      SendMessage ''{"jsonrpc": "2.0", "method": "cat", "params": {"timeout": 5}, "id": 100}'' [],
      LogResponse ''{"jsonrpc": "2.0", "result": "meow", "id": 1}'' (VBool False),
      ValidateResponse 0,
      Parse ''{"jsonrpc": "2.0", "result": "meow", "id": 1}'' (VBool True),
      SetData 0 (VDict [(''jsonrpc'', VStr ''2.0''), (''result'', VStr ''meow''), (''id'', VInt 1)])]
   \<and> map r_raw (objs (snd (request spec_env meow_client ''cat'' []
        [(''timeout'', VInt 5), (''id_generator'', VIter 0)] world0))) = [[]]\<close>
  unfolding request_example by (simp add: new_events_def world0_def)

text \<open>
  C4, amended. For every call to \<^verbatim>\<open>send\<close>, the keyword options supplied by the caller, all
  keywords but \<^verbatim>\<open>trim_log_values\<close> and \<^verbatim>\<open>validate_against_schema\<close>, are passed unmodified
  to the transport's \<^verbatim>\<open>send_message\<close>; \<^verbatim>\<open>request\<close> and \<^verbatim>\<open>notify\<close> call
  \<^verbatim>\<open>send_message\<close> with no options: their other keyword arguments become the params of
  the payload.

  In the statement: a \<^verbatim>\<open>send\<close> whose keywords bind and whose request has the text \<open>tx\<close>
  calls \<^verbatim>\<open>send_message\<close> exactly once, with \<open>tx\<close> and exactly the caller's options, and
  raises what that call raises; no run of \<^verbatim>\<open>send\<close> calls it with anything else. A
  \<^verbatim>\<open>notify\<close> or a \<^verbatim>\<open>request\<close> with keyword arguments calls \<^verbatim>\<open>send_message\<close> exactly once,
  with no options and with the text of the payload whose params are the keyword arguments
  (all but the configuration keywords), and raises what that call raises; no run of
  \<^verbatim>\<open>notify\<close> or \<^verbatim>\<open>request\<close>, whatever the builder, calls it with an option.
\<close>

theorem options_reach_transport_from_send_only:
  assumes "options = kw_rest [''trim_log_values'', ''validate_against_schema''] kw"
    and "params = kw_rest [''trim_log_values'', ''validate_against_schema'', ''id_generator''] kw"
  shows "(\<not> kw_has kw ''self'' \<and> \<not> kw_has kw ''request'' \<and> request_text_of E req = Inr tx \<longrightarrow>
            sent (new_events w (snd (send E c req kw w))) = [(tx, options)]
            \<and> (\<forall>e t1. send_message c tx options (transport w) = (Inl e, t1) \<longrightarrow>
                  fst (send E c req kw w) = Inl e))
       \<and> (\<forall>tx' opts. (tx', opts) \<in> set (sent (new_events w (snd (send E c req kw w)))) \<longrightarrow>
             opts = options)
       \<and> (Notification E = Notification_spec
            \<and> \<not> kw_has kw ''self'' \<and> \<not> kw_has kw ''method_name'' \<and> options \<noteq> []
            \<and> request_text_of E
                 (VDict [(''jsonrpc'', VStr ''2.0''), (''method'', VStr m), (''params'', VDict options)])
                = Inr tx \<longrightarrow>
            sent (new_events w (snd (notify E c m [] kw w))) = [(tx, [])]
            \<and> (\<forall>e t1. send_message c tx [] (transport w) = (Inl e, t1) \<longrightarrow>
                  fst (notify E c m [] kw w) = Inl e))
       \<and> (\<forall>tx' opts. (tx', opts) \<in> set (sent (new_events w (snd (notify E c m args kw w)))) \<longrightarrow>
             opts = [])
       \<and> (Request E = Request_spec
            \<and> \<not> kw_has kw ''self'' \<and> \<not> kw_has kw ''method_name'' \<and> params \<noteq> []
            \<and> next_id (kw_default kw ''id_generator'' (id_generator c)) (generators w) = (Inr i, g')
            \<and> request_text_of E
                 (VDict [(''jsonrpc'', VStr ''2.0''), (''method'', VStr m), (''params'', VDict params),
                         (''id'', i)])
                = Inr tx \<longrightarrow>
            sent (new_events w (snd (request E c m [] kw w))) = [(tx, [])]
            \<and> (\<forall>e t1. send_message c tx [] (transport w) = (Inl e, t1) \<longrightarrow>
                  fst (request E c m [] kw w) = Inl e))
       \<and> (\<forall>tx' opts. (tx', opts) \<in> set (sent (new_events w (snd (request E c m args kw w)))) \<longrightarrow>
             opts = [])"
proof -
  let ?inner = "[(''trim_log_values'', kw_default kw ''trim_log_values'' (trim_log_values c)),
                 (''validate_against_schema'',
                  kw_default kw ''validate_against_schema'' (validate_against_schema c))]"
  have c1: "\<not> kw_has kw ''self'' \<and> \<not> kw_has kw ''request'' \<and> request_text_of E req = Inr tx \<longrightarrow>
            sent (new_events w (snd (send E c req kw w))) = [(tx, options)]
            \<and> (\<forall>e t1. send_message c tx options (transport w) = (Inl e, t1) \<longrightarrow>
                  fst (send E c req kw w) = Inl e)"
    using assms(1) send_sent [where kw = kw and E = E and req = req and tx = tx and w = w and c = c]
      send_transport_raises [where kw = kw and E = E and req = req and tx = tx and w = w and c = c]
    by blast
  have c2: "\<forall>tx' opts. (tx', opts) \<in> set (sent (new_events w (snd (send E c req kw w)))) \<longrightarrow>
             opts = options"
    using assms(1) send_sends [of E c req kw w "fst (send E c req kw w)" "snd (send E c req kw w)"]
    by (simp add: sent_set)
  have c3: "Notification E = Notification_spec
            \<and> \<not> kw_has kw ''self'' \<and> \<not> kw_has kw ''method_name'' \<and> options \<noteq> []
            \<and> request_text_of E
                 (VDict [(''jsonrpc'', VStr ''2.0''), (''method'', VStr m), (''params'', VDict options)])
                = Inr tx \<longrightarrow>
            sent (new_events w (snd (notify E c m [] kw w))) = [(tx, [])]
            \<and> (\<forall>e t1. send_message c tx [] (transport w) = (Inl e, t1) \<longrightarrow>
                  fst (notify E c m [] kw w) = Inl e)"
  proof (rule impI)
    let ?p = "VDict [(''jsonrpc'', VStr ''2.0''), (''method'', VStr m), (''params'', VDict options)]"
    assume a: "Notification E = Notification_spec
            \<and> \<not> kw_has kw ''self'' \<and> \<not> kw_has kw ''method_name'' \<and> options \<noteq> []
            \<and> request_text_of E ?p = Inr tx"
    then have n: "notify E c m [] kw w = send E c ?p ?inner w"
      using assms(1) notify_keywords [where E = E and kw = kw and c = c and m = m and w = w] by simp
    have t: "request_text_of E ?p = Inr tx"
      using a by simp
    have "sent (new_events w (snd (send E c ?p ?inner w))) = [(tx, [])]"
      using send_sent [OF inner_kw(1) inner_kw(2) t, where w = w and c = c] by simp
    moreover have "\<forall>e t1. send_message c tx [] (transport w) = (Inl e, t1) \<longrightarrow>
        fst (send E c ?p ?inner w) = Inl e"
      using send_transport_raises [OF inner_kw(1) inner_kw(2) t, where w = w and c = c] by simp
    ultimately show "sent (new_events w (snd (notify E c m [] kw w))) = [(tx, [])]
            \<and> (\<forall>e t1. send_message c tx [] (transport w) = (Inl e, t1) \<longrightarrow>
                  fst (notify E c m [] kw w) = Inl e)"
      unfolding n by blast
  qed
  have c4: "\<forall>tx' opts. (tx', opts) \<in> set (sent (new_events w (snd (notify E c m args kw w)))) \<longrightarrow>
             opts = []"
    using notify_send [of E c m args kw w "fst (notify E c m args kw w)" "snd (notify E c m args kw w)"]
    by (auto simp add: sent_set)
  have c5: "Request E = Request_spec
            \<and> \<not> kw_has kw ''self'' \<and> \<not> kw_has kw ''method_name'' \<and> params \<noteq> []
            \<and> next_id (kw_default kw ''id_generator'' (id_generator c)) (generators w) = (Inr i, g')
            \<and> request_text_of E
                 (VDict [(''jsonrpc'', VStr ''2.0''), (''method'', VStr m), (''params'', VDict params),
                         (''id'', i)])
                = Inr tx \<longrightarrow>
            sent (new_events w (snd (request E c m [] kw w))) = [(tx, [])]
            \<and> (\<forall>e t1. send_message c tx [] (transport w) = (Inl e, t1) \<longrightarrow>
                  fst (request E c m [] kw w) = Inl e)"
  proof (rule impI)
    let ?p = "VDict [(''jsonrpc'', VStr ''2.0''), (''method'', VStr m), (''params'', VDict params),
                     (''id'', i)]"
    let ?w = "w\<lparr>generators := g'\<rparr>"
    assume a: "Request E = Request_spec
            \<and> \<not> kw_has kw ''self'' \<and> \<not> kw_has kw ''method_name'' \<and> params \<noteq> []
            \<and> next_id (kw_default kw ''id_generator'' (id_generator c)) (generators w) = (Inr i, g')
            \<and> request_text_of E ?p = Inr tx"
    then have n: "request E c m [] kw w = send E c ?p ?inner ?w"
      using assms(2) request_keywords [where E = E and kw = kw and c = c and m = m and w = w and i = i and g' = g'] by simp
    have t: "request_text_of E ?p = Inr tx"
      using a by simp
    have "sent (new_events ?w (snd (send E c ?p ?inner ?w))) = [(tx, [])]"
      using send_sent [OF inner_kw(1) inner_kw(2) t, where w = ?w and c = c] by simp
    then have "sent (new_events w (snd (send E c ?p ?inner ?w))) = [(tx, [])]"
      by simp
    moreover have "\<forall>e t1. send_message c tx [] (transport w) = (Inl e, t1) \<longrightarrow>
        fst (send E c ?p ?inner ?w) = Inl e"
      using send_transport_raises [OF inner_kw(1) inner_kw(2) t, where w = ?w and c = c] by simp
    ultimately show "sent (new_events w (snd (request E c m [] kw w))) = [(tx, [])]
            \<and> (\<forall>e t1. send_message c tx [] (transport w) = (Inl e, t1) \<longrightarrow>
                  fst (request E c m [] kw w) = Inl e)"
      unfolding n by blast
  qed
  have c6: "\<forall>tx' opts. (tx', opts) \<in> set (sent (new_events w (snd (request E c m args kw w)))) \<longrightarrow>
             opts = []"
    using request_send [of E c m args kw w "fst (request E c m args kw w)" "snd (request E c m args kw w)"]
    by (auto simp add: sent_set)
  show ?thesis
    by (intro conjI) (rule c1, rule c2, rule c3, rule c4, rule c5, rule c6)
qed

text \<open>The theorem at a \<^verbatim>\<open>send\<close>, a \<^verbatim>\<open>notify\<close> and a \<^verbatim>\<open>request\<close> of the stub client.\<close>

theorem options_reach_transport_from_send_only_witness:
  \<open>sent (new_events world0 (snd (send spec_env meow_client
        (VDict [(''jsonrpc'', VStr ''2.0''), (''method'', VStr ''ping''), (''id'', VInt 1)])
        [(''timeout'', VInt 5), (''trim_log_values'', VBool True)] world0))) =
     [(''{"jsonrpc": "2.0", "method": "ping", "id": 1}'', [(''timeout'', VInt 5)])]
   \<and> sent (new_events world0 (snd (notify spec_env meow_client ''ping'' []
        [(''a'', VInt 2), (''trim_log_values'', VBool True)] world0))) =
     [(''{"jsonrpc": "2.0", "method": "ping", "params": {"a": 2}}'', [])]
   \<and> sent (new_events world0 (snd (request spec_env meow_client ''cat'' []
        [(''timeout'', VInt 5), (''id_generator'', VIter 0)] world0))) =
     [(''{"jsonrpc": "2.0", "method": "cat", "params": {"timeout": 5}, "id": 100}'', [])]\<close>
proof -
  let ?kws = "[(''timeout'', VInt 5), (''trim_log_values'', VBool True)]"
  let ?kwn = "[(''a'', VInt 2), (''trim_log_values'', VBool True)]"
  let ?kwr = "[(''timeout'', VInt 5), (''id_generator'', VIter 0)]"
  let ?req = "VDict [(''jsonrpc'', VStr ''2.0''), (''method'', VStr ''ping''), (''id'', VInt 1)]"
  have ds: \<open>request_text_of spec_env ?req = Inr ''{"jsonrpc": "2.0", "method": "ping", "id": 1}''\<close>
    unfolding request_text_of_def spec_env_def by code_simp
  have dn: \<open>request_text_of spec_env
      (VDict [(''jsonrpc'', VStr ''2.0''), (''method'', VStr ''ping''), (''params'', VDict [(''a'', VInt 2)])]) =
      Inr ''{"jsonrpc": "2.0", "method": "ping", "params": {"a": 2}}''\<close>
    unfolding request_text_of_def spec_env_def by code_simp
  have dr: \<open>request_text_of spec_env
      (VDict [(''jsonrpc'', VStr ''2.0''), (''method'', VStr ''cat''),
              (''params'', VDict [(''timeout'', VInt 5)]), (''id'', VInt 100)]) =
      Inr ''{"jsonrpc": "2.0", "method": "cat", "params": {"timeout": 5}, "id": 100}''\<close>
    unfolding request_text_of_def spec_env_def by code_simp
  have g: "next_id (VIter 0) (generators world0) =
      (Inr (VInt 100), \<lparr>iters = [hundreds\<lparr>gen_pos := 1\<rparr>, only_a], default_count = 0\<rparr>)"
    by (simp add: next_id_def world0_def hundreds_def)
  have e: "Notification spec_env = Notification_spec" "Request spec_env = Request_spec"
    by (simp_all add: spec_env_def)
  have ha: \<open>\<not> kw_has ?kws ''self'' \<and> \<not> kw_has ?kws ''request''
      \<and> request_text_of spec_env ?req = Inr ''{"jsonrpc": "2.0", "method": "ping", "id": 1}''\<close>
    using ds by (simp add: kw_has_def)
  have ra: "kw_rest [''trim_log_values'', ''validate_against_schema''] ?kws = [(''timeout'', VInt 5)]"
    by (simp add: kw_rest_def)
  have a: \<open>sent (new_events world0 (snd (send spec_env meow_client ?req ?kws world0))) =
     [(''{"jsonrpc": "2.0", "method": "ping", "id": 1}'', [(''timeout'', VInt 5)])]\<close>
    using options_reach_transport_from_send_only [OF refl refl,
        where E = spec_env and c = meow_client and req = ?req and kw = ?kws and w = world0
          and tx = \<open>''{"jsonrpc": "2.0", "method": "ping", "id": 1}''\<close>,
        THEN conjunct1, THEN mp, OF ha, THEN conjunct1]
    by (simp only: ra)
  have rb: "kw_rest [''trim_log_values'', ''validate_against_schema''] ?kwn = [(''a'', VInt 2)]"
    by (simp add: kw_rest_def)
  have hb: \<open>Notification spec_env = Notification_spec
      \<and> \<not> kw_has ?kwn ''self'' \<and> \<not> kw_has ?kwn ''method_name''
      \<and> kw_rest [''trim_log_values'', ''validate_against_schema''] ?kwn \<noteq> []
      \<and> request_text_of spec_env
           (VDict [(''jsonrpc'', VStr ''2.0''), (''method'', VStr ''ping''),
                   (''params'', VDict (kw_rest [''trim_log_values'', ''validate_against_schema''] ?kwn))]) =
         Inr ''{"jsonrpc": "2.0", "method": "ping", "params": {"a": 2}}''\<close>
    unfolding rb using dn e by (simp add: kw_has_def)
  have b: \<open>sent (new_events world0 (snd (notify spec_env meow_client ''ping'' [] ?kwn world0))) =
     [(''{"jsonrpc": "2.0", "method": "ping", "params": {"a": 2}}'', [])]\<close>
    using options_reach_transport_from_send_only [OF refl refl,
        where E = spec_env and c = meow_client and m = "''ping''" and kw = ?kwn and w = world0
          and tx = \<open>''{"jsonrpc": "2.0", "method": "ping", "params": {"a": 2}}''\<close>,
        THEN conjunct2, THEN conjunct2, THEN conjunct1, THEN mp, OF hb, THEN conjunct1]
    .
  have rc: "kw_rest [''trim_log_values'', ''validate_against_schema'', ''id_generator''] ?kwr =
      [(''timeout'', VInt 5)]"
    by (simp add: kw_rest_def)
  have dc: "kw_default ?kwr ''id_generator'' (id_generator meow_client) = VIter 0"
    by (simp add: kw_default_def kw_has_def)
  have hc: \<open>Request spec_env = Request_spec
      \<and> \<not> kw_has ?kwr ''self'' \<and> \<not> kw_has ?kwr ''method_name''
      \<and> kw_rest [''trim_log_values'', ''validate_against_schema'', ''id_generator''] ?kwr \<noteq> []
      \<and> next_id (kw_default ?kwr ''id_generator'' (id_generator meow_client)) (generators world0) =
          (Inr (VInt 100), \<lparr>iters = [hundreds\<lparr>gen_pos := 1\<rparr>, only_a], default_count = 0\<rparr>)
      \<and> request_text_of spec_env
           (VDict [(''jsonrpc'', VStr ''2.0''), (''method'', VStr ''cat''),
                   (''params'', VDict (kw_rest [''trim_log_values'', ''validate_against_schema'', ''id_generator''] ?kwr)),
                   (''id'', VInt 100)]) =
         Inr ''{"jsonrpc": "2.0", "method": "cat", "params": {"timeout": 5}, "id": 100}''\<close>
    unfolding rc dc using dr e g by (simp add: kw_has_def)
  have c: \<open>sent (new_events world0 (snd (request spec_env meow_client ''cat'' [] ?kwr world0))) =
     [(''{"jsonrpc": "2.0", "method": "cat", "params": {"timeout": 5}, "id": 100}'', [])]\<close>
    using options_reach_transport_from_send_only [OF refl refl,
        where E = spec_env and c = meow_client and m = "''cat''" and kw = ?kwr and w = world0
          and i = "VInt 100" and g' = "\<lparr>iters = [hundreds\<lparr>gen_pos := 1\<rparr>, only_a], default_count = 0\<rparr>"
          and tx = \<open>''{"jsonrpc": "2.0", "method": "cat", "params": {"timeout": 5}, "id": 100}''\<close>,
        THEN conjunct2, THEN conjunct2, THEN conjunct2, THEN conjunct2, THEN conjunct1, THEN mp,
        OF hc, THEN conjunct1]
    .
  from a b c show ?thesis by blast
qed

text \<open>
  C6. Every run of \<^verbatim>\<open>send\<close>, transition by transition. If the keywords do not bind or the
  request cannot be serialised, the world is as it was. If \<^verbatim>\<open>send_message\<close> raises, the
  call raises the same error, no object has been added and no data field has been written.
  If \<^verbatim>\<open>validate_response\<close> raises, or \<^verbatim>\<open>parse\<close> raises, the call raises the same error,
  the transport's reply is there exactly as the transport built it, and no data field has
  been written. If \<^verbatim>\<open>parse\<close> returns, the data field of the reply is written exactly once,
  with the value \<^verbatim>\<open>parse\<close> returned, as the last step and right after the call of
  \<^verbatim>\<open>parse\<close>.
\<close>

theorem send_data_written_once:
  assumes "validate = kw_default kw ''validate_against_schema'' (validate_against_schema c)"
    and "options = kw_rest [''trim_log_values'', ''validate_against_schema''] kw"
    and "binds = (\<not> kw_has kw ''self'' \<and> \<not> kw_has kw ''request'')"
    and "S = send E c req kw w"
  shows "(\<not> binds \<longrightarrow> S = (Inl TypeError, w))
    \<and> (binds \<and> request_text_of E req = Inl e \<longrightarrow> S = (Inl e, w))
    \<and> (binds \<and> request_text_of E req = Inr tx
         \<and> send_message c tx options (transport w) = (Inl e, t1) \<longrightarrow>
           fst S = Inl e \<and> objs (snd S) = objs w \<and> writes (new_events w (snd S)) = [])
    \<and> (binds \<and> request_text_of E req = Inr tx
         \<and> send_message c tx options (transport w) = (Inr r, t1)
         \<and> validate_response c r t1 = (Some e, t2) \<longrightarrow>
           fst S = Inl e \<and> objs (snd S) = objs w @ [r] \<and> writes (new_events w (snd S)) = [])
    \<and> (binds \<and> request_text_of E req = Inr tx
         \<and> send_message c tx options (transport w) = (Inr r, t1)
         \<and> validate_response c r t1 = (None, t2)
         \<and> parse E (r_text r) validate = Inl e \<longrightarrow>
           fst S = Inl e \<and> objs (snd S) = objs w @ [r] \<and> writes (new_events w (snd S)) = [])
    \<and> (binds \<and> request_text_of E req = Inr tx
         \<and> send_message c tx options (transport w) = (Inr r, t1)
         \<and> validate_response c r t1 = (None, t2)
         \<and> parse E (r_text r) validate = Inr d \<longrightarrow>
           fst S = Inr (length (objs w))
           \<and> objs (snd S) = objs w @ [r\<lparr>r_data := Some d\<rparr>]
           \<and> writes (new_events w (snd S)) = [(length (objs w), d)]
           \<and> (\<exists>es. new_events w (snd S) =
                  es @ [Parse (r_text r) validate, SetData (length (objs w)) d]
                \<and> writes es = []))"
proof -
  have c1: "\<not> binds \<longrightarrow> S = (Inl TypeError, w)"
  proof (rule impI)
    assume "\<not> binds"
    then show "S = (Inl TypeError, w)"
      using assms(3,4) send_clash [of kw E c req w] by blast
  qed
  have c2: "binds \<and> request_text_of E req = Inl e \<longrightarrow> S = (Inl e, w)"
  proof (rule impI)
    assume "binds \<and> request_text_of E req = Inl e"
    then show "S = (Inl e, w)"
      using assms(3,4) send_dumps_error [of kw E req e c w] by simp
  qed
  have c3: "binds \<and> request_text_of E req = Inr tx
         \<and> send_message c tx options (transport w) = (Inl e, t1) \<longrightarrow>
           fst S = Inl e \<and> objs (snd S) = objs w \<and> writes (new_events w (snd S)) = []"
  proof (rule impI)
    assume a: "binds \<and> request_text_of E req = Inr tx
      \<and> send_message c tx options (transport w) = (Inl e, t1)"
    then have "S = (Inl e, w\<lparr>transport := t1,
        trace := trace w @
          [LogRequest tx (kw_default kw ''trim_log_values'' (trim_log_values c)),
           SendMessage tx (kw_rest [''trim_log_values'', ''validate_against_schema''] kw)]\<rparr>)"
      using assms send_transport_error [of kw E req tx c w e t1] by simp
    then show "fst S = Inl e \<and> objs (snd S) = objs w \<and> writes (new_events w (snd S)) = []"
      by simp
  qed
  have c4: "binds \<and> request_text_of E req = Inr tx
         \<and> send_message c tx options (transport w) = (Inr r, t1)
         \<and> validate_response c r t1 = (Some e, t2) \<longrightarrow>
           fst S = Inl e \<and> objs (snd S) = objs w @ [r] \<and> writes (new_events w (snd S)) = []"
  proof (rule impI)
    assume a: "binds \<and> request_text_of E req = Inr tx
      \<and> send_message c tx options (transport w) = (Inr r, t1)
      \<and> validate_response c r t1 = (Some e, t2)"
    then have "S = (Inl e, w\<lparr>transport := t2, objs := objs w @ [r],
        trace := trace w @
          [LogRequest tx (kw_default kw ''trim_log_values'' (trim_log_values c)),
           SendMessage tx (kw_rest [''trim_log_values'', ''validate_against_schema''] kw),
           LogResponse (r_text r) (kw_default kw ''trim_log_values'' (trim_log_values c)),
           ValidateResponse (length (objs w))]\<rparr>)"
      using assms send_validate_error [of kw E req tx c w r t1 e t2] by simp
    then show "fst S = Inl e \<and> objs (snd S) = objs w @ [r] \<and> writes (new_events w (snd S)) = []"
      by simp
  qed
  have c5: "binds \<and> request_text_of E req = Inr tx
         \<and> send_message c tx options (transport w) = (Inr r, t1)
         \<and> validate_response c r t1 = (None, t2)
         \<and> parse E (r_text r) validate = Inl e \<longrightarrow>
           fst S = Inl e \<and> objs (snd S) = objs w @ [r] \<and> writes (new_events w (snd S)) = []"
  proof (rule impI)
    assume a: "binds \<and> request_text_of E req = Inr tx
      \<and> send_message c tx options (transport w) = (Inr r, t1)
      \<and> validate_response c r t1 = (None, t2)
      \<and> parse E (r_text r) validate = Inl e"
    then have "S = (Inl e, w\<lparr>transport := t2, objs := objs w @ [r],
        trace := trace w @
          [LogRequest tx (kw_default kw ''trim_log_values'' (trim_log_values c)),
           SendMessage tx (kw_rest [''trim_log_values'', ''validate_against_schema''] kw),
           LogResponse (r_text r) (kw_default kw ''trim_log_values'' (trim_log_values c)),
           ValidateResponse (length (objs w)),
           Parse (r_text r) (kw_default kw ''validate_against_schema'' (validate_against_schema c))]\<rparr>)"
      using assms send_parse_error [of kw E req tx c w r t1 t2 e] by simp
    then show "fst S = Inl e \<and> objs (snd S) = objs w @ [r] \<and> writes (new_events w (snd S)) = []"
      by simp
  qed
  have c6: "binds \<and> request_text_of E req = Inr tx
         \<and> send_message c tx options (transport w) = (Inr r, t1)
         \<and> validate_response c r t1 = (None, t2)
         \<and> parse E (r_text r) validate = Inr d \<longrightarrow>
           fst S = Inr (length (objs w))
           \<and> objs (snd S) = objs w @ [r\<lparr>r_data := Some d\<rparr>]
           \<and> writes (new_events w (snd S)) = [(length (objs w), d)]
           \<and> (\<exists>es. new_events w (snd S) =
                  es @ [Parse (r_text r) validate, SetData (length (objs w)) d]
                \<and> writes es = [])"
  proof (rule impI)
    assume a: "binds \<and> request_text_of E req = Inr tx
      \<and> send_message c tx options (transport w) = (Inr r, t1)
      \<and> validate_response c r t1 = (None, t2)
      \<and> parse E (r_text r) validate = Inr d"
    then have s: "S = (Inr (length (objs w)),
        w\<lparr>transport := t2, objs := objs w @ [r\<lparr>r_data := Some d\<rparr>],
          trace := trace w @
            [LogRequest tx (kw_default kw ''trim_log_values'' (trim_log_values c)),
             SendMessage tx options,
             LogResponse (r_text r) (kw_default kw ''trim_log_values'' (trim_log_values c)),
             ValidateResponse (length (objs w)),
             Parse (r_text r) validate,
             SetData (length (objs w)) d]\<rparr>)"
      using assms send_success [of kw E req tx c w r t1 t2 d] by simp
    have "new_events w (snd S) =
        [LogRequest tx (kw_default kw ''trim_log_values'' (trim_log_values c)),
         SendMessage tx options,
         LogResponse (r_text r) (kw_default kw ''trim_log_values'' (trim_log_values c)),
         ValidateResponse (length (objs w))]
        @ [Parse (r_text r) validate, SetData (length (objs w)) d]"
      unfolding s by simp
    moreover have "writes
        [LogRequest tx (kw_default kw ''trim_log_values'' (trim_log_values c)),
         SendMessage tx options,
         LogResponse (r_text r) (kw_default kw ''trim_log_values'' (trim_log_values c)),
         ValidateResponse (length (objs w))] = []"
      by simp
    ultimately have "\<exists>es. new_events w (snd S) =
          es @ [Parse (r_text r) validate, SetData (length (objs w)) d] \<and> writes es = []"
      by blast
    moreover have "fst S = Inr (length (objs w))"
      and "objs (snd S) = objs w @ [r\<lparr>r_data := Some d\<rparr>]"
      and "writes (new_events w (snd S)) = [(length (objs w), d)]"
      unfolding s by simp_all
    ultimately show "fst S = Inr (length (objs w))
        \<and> objs (snd S) = objs w @ [r\<lparr>r_data := Some d\<rparr>]
        \<and> writes (new_events w (snd S)) = [(length (objs w), d)]
        \<and> (\<exists>es. new_events w (snd S) =
               es @ [Parse (r_text r) validate, SetData (length (objs w)) d]
             \<and> writes es = [])"
      by blast
  qed
  show ?thesis
    by (intro conjI) (rule c1, rule c2, rule c3, rule c4, rule c5, rule c6)
qed

text \<open>
  The theorem at a transport that refuses the connection, at a \<^verbatim>\<open>validate_response\<close> that
  rejects the reply, at a reply that is not JSON, and at the reply \<^verbatim>\<open>meow\<close>.
\<close>

theorem send_data_written_once_witness:
  \<open>fst (send spec_env refusing_client (VStr ''ping'') [] world0) = Inl (TransportError ''connection refused'')
   \<and> objs (snd (send spec_env refusing_client (VStr ''ping'') [] world0)) = objs world0
   \<and> writes (new_events world0 (snd (send spec_env refusing_client (VStr ''ping'') [] world0))) = []
   \<and> fst (send spec_env strict_client (VStr ''ping'') [] world0) = Inl (OtherError ''empty reply'')
   \<and> objs (snd (send spec_env strict_client (VStr ''ping'') [] world0)) =
       objs world0 @ [\<lparr>r_text = [], r_raw = [], r_data = None\<rparr>]
   \<and> writes (new_events world0 (snd (send spec_env strict_client (VStr ''ping'') [] world0))) = []
   \<and> fst (send spec_env garbled_client (VStr ''ping'') [] world0) = Inl ParseError
   \<and> objs (snd (send spec_env garbled_client (VStr ''ping'') [] world0)) =
       objs world0 @ [\<lparr>r_text = ''<html>'', r_raw = [], r_data = None\<rparr>]
   \<and> writes (new_events world0 (snd (send spec_env garbled_client (VStr ''ping'') [] world0))) = []
   \<and> fst (send spec_env meow_client (VStr ''ping'') [] world0) = Inr 0
   \<and> objs (snd (send spec_env meow_client (VStr ''ping'') [] world0)) =
       objs world0 @
         [\<lparr>r_text = ''{"jsonrpc": "2.0", "result": "meow", "id": 1}'', r_raw = [],
            r_data = Some (VDict [(''jsonrpc'', VStr ''2.0''), (''result'', VStr ''meow''), (''id'', VInt 1)])\<rparr>]
   \<and> writes (new_events world0 (snd (send spec_env meow_client (VStr ''ping'') [] world0))) =
       [(0, VDict [(''jsonrpc'', VStr ''2.0''), (''result'', VStr ''meow''), (''id'', VInt 1)])]\<close>
proof -
  let ?reply = \<open>''{"jsonrpc": "2.0", "result": "meow", "id": 1}''\<close>
  let ?d = "VDict [(''jsonrpc'', VStr ''2.0''), (''result'', VStr ''meow''), (''id'', VInt 1)]"
  have pg: "parse spec_env ''<html>'' (VBool True) = Inl ParseError"
    unfolding spec_env_def by code_simp
  have pm: "parse spec_env ?reply (VBool True) = Inr ?d"
    unfolding spec_env_def by code_simp
  have a: "fst (send spec_env refusing_client (VStr ''ping'') [] world0) = Inl (TransportError ''connection refused'')
   \<and> objs (snd (send spec_env refusing_client (VStr ''ping'') [] world0)) = objs world0
   \<and> writes (new_events world0 (snd (send spec_env refusing_client (VStr ''ping'') [] world0))) = []"
    using send_data_written_once [OF refl refl refl refl,
        where E = spec_env and c = refusing_client and req = "VStr ''ping''" and kw = "[]"
          and w = world0 and tx = "''ping''" and e = "TransportError ''connection refused''"
          and ?t1.0 = "[]"]
    by (simp add: example_defs world0_def)
  have b: "fst (send spec_env strict_client (VStr ''ping'') [] world0) = Inl (OtherError ''empty reply'')
   \<and> objs (snd (send spec_env strict_client (VStr ''ping'') [] world0)) =
       objs world0 @ [\<lparr>r_text = [], r_raw = [], r_data = None\<rparr>]
   \<and> writes (new_events world0 (snd (send spec_env strict_client (VStr ''ping'') [] world0))) = []"
    using send_data_written_once [OF refl refl refl refl,
        where E = spec_env and c = strict_client and req = "VStr ''ping''" and kw = "[]"
          and w = world0 and tx = "''ping''" and e = "OtherError ''empty reply''"
          and ?t1.0 = "[''ping'']" and ?t2.0 = "[''ping'']"
          and r = "\<lparr>r_text = [], r_raw = [], r_data = None\<rparr>"]
    by (simp add: example_defs world0_def)
  have c: "fst (send spec_env garbled_client (VStr ''ping'') [] world0) = Inl ParseError
   \<and> objs (snd (send spec_env garbled_client (VStr ''ping'') [] world0)) =
       objs world0 @ [\<lparr>r_text = ''<html>'', r_raw = [], r_data = None\<rparr>]
   \<and> writes (new_events world0 (snd (send spec_env garbled_client (VStr ''ping'') [] world0))) = []"
    using send_data_written_once [OF refl refl refl refl,
        where E = spec_env and c = garbled_client and req = "VStr ''ping''" and kw = "[]"
          and w = world0 and tx = "''ping''" and e = ParseError
          and ?t1.0 = "[''ping'']" and ?t2.0 = "[''ping'']"
          and r = "\<lparr>r_text = ''<html>'', r_raw = [], r_data = None\<rparr>"] pg
    by (simp add: example_defs world0_def)
  have d: "fst (send spec_env meow_client (VStr ''ping'') [] world0) = Inr 0
   \<and> objs (snd (send spec_env meow_client (VStr ''ping'') [] world0)) =
       objs world0 @ [\<lparr>r_text = ?reply, r_raw = [], r_data = Some ?d\<rparr>]
   \<and> writes (new_events world0 (snd (send spec_env meow_client (VStr ''ping'') [] world0))) = [(0, ?d)]"
    using send_data_written_once [OF refl refl refl refl,
        where E = spec_env and c = meow_client and req = "VStr ''ping''" and kw = "[]"
          and w = world0 and tx = "''ping''" and d = ?d
          and ?t1.0 = "[''ping'']" and ?t2.0 = "[''ping'']"
          and r = "\<lparr>r_text = ?reply, r_raw = [], r_data = None\<rparr>"] pm
    by (simp add: example_defs world0_def)
  from a b c d show ?thesis by blast
qed

end
